theory Spec2Isabelle
  imports Complex_Main "HOL-Library.While_Combinator"
begin

section \<open>Common types\<close>

text \<open>
  Discord identifiers are Python integers; they are only compared, so they are naturals
  here. A \<open>datetime\<close> is an instant with microsecond resolution: the number of
  microseconds since the epoch. \<open>total_seconds\<close> is \<open>timedelta.total_seconds()\<close>,
  with the floating-point rounding of the quotient left out.
\<close>

type_synonym guildid = nat
type_synonym userid = nat
type_synonym channelid = nat
type_synonym datetime = int
type_synonym timedelta = int

definition total_seconds :: "timedelta \<Rightarrow> real" where
  "total_seconds d = real_of_int d / 1000000"

datatype error = ValueError | AttributeError | KeyError

section \<open>study/tracking/session\_tracker.py\<close>

datatype SessionChannelType = STANDARD | RENTED | ACCOUNTABILITY

text \<open>\<open>discord.VoiceState\<close> and \<open>discord.Member\<close>, with the attributes the tracker reads.\<close>

record VoiceState =
  channel :: "channelid option"
  self_video :: bool
  self_stream :: bool

record Member =
  guild_id :: guildid
  member_id :: userid
  bot :: bool
  voice :: "VoiceState option"

text \<open>A row of the \<open>current_sessions\<close> table, keyed by \<open>(guildid, userid)\<close>.\<close>

record session_row =
  guildid :: guildid
  userid :: userid
  channelid :: channelid
  channel_type :: SessionChannelType
  start_time :: datetime
  live_start :: "datetime option"
  stream_start :: "datetime option"
  video_start :: "datetime option"
  live_duration :: real
  stream_duration :: real
  video_duration :: real
  hourly_coins :: int
  hourly_live_coins :: int

text \<open>
  The body of the \<open>with data.batch_update()\<close> block of \<open>Session.save_live_status\<close>:
  the three sub-timers are updated in the order video, stream, live, all with the one
  \<open>now\<close> read before the block. A \<open>datetime\<close> is always truthy, so
  \<open>if data.video_start\<close> tests for \<open>None\<close>.
\<close>

definition update_video :: "datetime \<Rightarrow> bool \<Rightarrow> session_row \<Rightarrow> session_row" where
  "update_video now has_video data =
     (let data1 = (case video_start data of
                     Some t \<Rightarrow> data\<lparr>video_duration := video_duration data + total_seconds (now - t)\<rparr>
                   | None \<Rightarrow> data)
      in data1\<lparr>video_start := (if has_video then Some now else None)\<rparr>)"

definition update_stream :: "datetime \<Rightarrow> bool \<Rightarrow> session_row \<Rightarrow> session_row" where
  "update_stream now has_stream data =
     (let data1 = (case stream_start data of
                     Some t \<Rightarrow> data\<lparr>stream_duration := stream_duration data + total_seconds (now - t)\<rparr>
                   | None \<Rightarrow> data)
      in data1\<lparr>stream_start := (if has_stream then Some now else None)\<rparr>)"

definition update_live :: "datetime \<Rightarrow> bool \<Rightarrow> session_row \<Rightarrow> session_row" where
  "update_live now is_live data =
     (let data1 = (case live_start data of
                     Some t \<Rightarrow> data\<lparr>live_duration := live_duration data + total_seconds (now - t)\<rparr>
                   | None \<Rightarrow> data)
      in data1\<lparr>live_start := (if is_live then Some now else None)\<rparr>)"

definition batch_update :: "datetime \<Rightarrow> VoiceState \<Rightarrow> session_row \<Rightarrow> session_row" where
  "batch_update now state data =
     (let has_video = self_video state;
          has_stream = self_stream state;
          is_live = (has_video \<or> has_stream)
      in update_live now is_live (update_stream now has_stream (update_video now has_video data)))"


text \<open>
  What the tracker reads from the rest of the bot: the guild settings
  (\<open>untracked_channels\<close>, \<open>hourly_reward\<close>, \<open>hourly_live_bonus\<close>), the two
  blacklists and the row caches of the \<open>rented\<close> and \<open>accountability_rooms\<close>
  tables. Their declarations are not part of the tracker, so they are parameters.
\<close>

record client =
  untracked_channels :: "guildid \<Rightarrow> channelid set"
  hourly_reward :: "guildid \<Rightarrow> int"
  hourly_live_bonus :: "guildid \<Rightarrow> int"
  user_blacklist :: "userid set"
  ignored_members :: "guildid \<Rightarrow> userid set"
  rented_row_cache :: "channelid set"
  accountability_rooms_row_cache :: "channelid set"

text \<open>The two properties of a \<open>Lion\<close> that the tracker reads, in seconds.\<close>

record Lion =
  remaining_study_today :: real
  remaining_in_day :: real

text \<open>
  The event loop's tasks. A task is created by \<open>asyncio.create_task\<close> on one of the two
  coroutines of the class; it has not run yet (\<open>Created\<close>), is suspended in
  \<open>asyncio.sleep\<close> for a delay (\<open>Sleeping\<close>), was cancelled, or has returned. A task
  is identified by its position in the list of all tasks, a \<open>Session\<close> object by
  its position in the list of all objects: the cache, the tasks and the callers share
  the objects by reference.
\<close>

datatype coroutine =
  delayed_start_coro guildid userid Member VoiceState
  | schedule_expiry_coro nat

datatype task_state = Created | Sleeping real | Cancelled | Finished

record Task =
  coro :: coroutine
  task_state :: task_state

record Session =
  s_guildid :: guildid
  s_userid :: userid
  expiry_task :: "nat option"

record tracker =
  sessions :: "guildid \<times> userid \<rightharpoonup> nat"
  members_pending :: "guildid \<times> userid \<rightharpoonup> nat"
  objects :: "Session list"
  tasks :: "Task list"
  current_sessions :: "guildid \<times> userid \<rightharpoonup> session_row"
  session_history :: "session_row list"
  lion :: "guildid \<times> userid \<Rightarrow> Lion"

definition task_done :: "tracker \<Rightarrow> nat \<Rightarrow> bool" where
  "task_done s t = (task_state (tasks s ! t) = Cancelled \<or> task_state (tasks s ! t) = Finished)"

definition set_task_state :: "nat \<Rightarrow> task_state \<Rightarrow> tracker \<Rightarrow> tracker" where
  "set_task_state t st s = s\<lparr>tasks := (tasks s)[t := (tasks s ! t)\<lparr>task_state := st\<rparr>]\<rparr>"

text \<open>\<open>Task.cancel()\<close>: nothing happens to a task that is done.\<close>

definition cancel :: "nat \<Rightarrow> tracker \<Rightarrow> tracker" where
  "cancel t s = (if t < length (tasks s) \<and> \<not> task_done s t then set_task_state t Cancelled s else s)"

definition create_task :: "coroutine \<Rightarrow> tracker \<Rightarrow> nat \<times> tracker" where
  "create_task c s = (length (tasks s), s\<lparr>tasks := tasks s @ [\<lparr>coro = c, task_state = Created\<rparr>]\<rparr>)"

definition key :: "Session \<Rightarrow> guildid \<times> userid" where
  "key self = (s_guildid self, s_userid self)"

definition schedule_expiry :: "nat \<Rightarrow> tracker \<Rightarrow> tracker" where
  "schedule_expiry self s = snd (create_task (schedule_expiry_coro self) s)"

definition activate :: "nat \<Rightarrow> tracker \<Rightarrow> tracker" where
  "activate self s =
     schedule_expiry self (s\<lparr>sessions := (sessions s)(key (objects s ! self) \<mapsto> self)\<rparr>)"

text \<open>
  Modelled from the spec: \<open>current_sessions.queries.close_study_session\<close>, a stored
  query that is not part of the tracker. The spec says that it persists the closing
  accounting of the session; here the open row leaves \<open>current_sessions\<close> and is
  appended to the history, and a key without an open row changes nothing.
\<close>

definition close_study_session :: "guildid \<times> userid \<Rightarrow> tracker \<Rightarrow> tracker" where
  "close_study_session k s =
     (case current_sessions s k of
        None \<Rightarrow> s
      | Some row \<Rightarrow> s\<lparr>current_sessions := (current_sessions s)(k := None),
                       session_history := session_history s @ [row]\<rparr>)"

definition finish :: "nat \<Rightarrow> tracker \<Rightarrow> tracker" where
  "finish self s =
     (let s1 = close_study_session (key (objects s ! self)) s;
          s2 = s1\<lparr>sessions := (sessions s1)(key (objects s ! self) := None)\<rparr>
      in case expiry_task (objects s2 ! self) of
           Some t \<Rightarrow> (if \<not> task_done s2 t then cancel t s2 else s2)
         | None \<Rightarrow> s2)"

text \<open>
  \<open>Session._schedule_expiry\<close>, in its two turns of the event loop. The first turn runs
  up to the \<open>await asyncio.sleep(...)\<close>. The second turn runs when the sleep returns:
  \<open>asyncio.sleep\<close> returns \<open>None\<close>, and that result is what the assignment stores
  in \<open>_expiry_task\<close>. A task cancelled while it sleeps catches the \<open>CancelledError\<close>
  and does nothing more.
\<close>

definition schedule_expiry_begin :: "nat \<Rightarrow> tracker \<Rightarrow> tracker" where
  "schedule_expiry_begin t s =
     (case (coro (tasks s ! t), task_state (tasks s ! t)) of
        (schedule_expiry_coro self, Created) \<Rightarrow>
          (let s1 = (case expiry_task (objects s ! self) of
                       Some old \<Rightarrow> (if \<not> task_done s old then cancel old s else s)
                     | None \<Rightarrow> s)
           in set_task_state t (Sleeping (remaining_study_today (lion s1 (key (objects s1 ! self))))) s1)
      | _ \<Rightarrow> s)"

definition schedule_expiry_wake :: "nat \<Rightarrow> tracker \<Rightarrow> tracker" where
  "schedule_expiry_wake t s =
     (case (coro (tasks s ! t), task_state (tasks s ! t)) of
        (schedule_expiry_coro self, Sleeping d) \<Rightarrow>
          (let s1 = s\<lparr>objects := (objects s)[self := (objects s ! self)\<lparr>expiry_task := None\<rparr>]\<rparr>;
               s2 = (if remaining_study_today (lion s1 (key (objects s1 ! self))) \<le> 0
                     then finish self s1
                     else schedule_expiry self s1)
           in set_task_state t Finished s2)
      | _ \<Rightarrow> s)"

text \<open>
  \<open>Session.start\<close>. The result is the exception raised, if any, and the state the call
  leaves. \<open>ValueError\<close> is the error of a member who already has a session.
  The durations of a new row are the defaults of the table, zero.
\<close>

definition channel_type_of :: "client \<Rightarrow> channelid \<Rightarrow> SessionChannelType" where
  "channel_type_of cl c =
     (if c \<in> rented_row_cache cl then RENTED
      else if c \<in> accountability_rooms_row_cache cl then ACCOUNTABILITY
      else STANDARD)"

definition create_row :: "client \<Rightarrow> datetime \<Rightarrow> guildid \<Rightarrow> userid \<Rightarrow> channelid \<Rightarrow> VoiceState \<Rightarrow> session_row" where
  "create_row cl now g u c state =
     \<lparr>guildid = g, userid = u, channelid = c,
      channel_type = channel_type_of cl c,
      start_time = now,
      live_start = (if self_video state \<or> self_stream state then Some now else None),
      stream_start = (if self_stream state then Some now else None),
      video_start = (if self_video state then Some now else None),
      live_duration = 0, stream_duration = 0, video_duration = 0,
      hourly_coins = hourly_reward cl g,
      hourly_live_coins = hourly_live_bonus cl g\<rparr>"

definition start :: "client \<Rightarrow> datetime \<Rightarrow> Member \<Rightarrow> VoiceState \<Rightarrow> tracker \<Rightarrow> error option \<times> tracker" where
  "start cl now member state s =
     (let g = guild_id member; u = member_id member in
      if (g, u) \<in> dom (sessions s) then (Some ValueError, s)
      else if remaining_study_today (lion s (g, u)) \<le> 0 then
        (let s1 = (case members_pending s (g, u) of
                     Some pending \<Rightarrow> cancel pending (s\<lparr>members_pending := (members_pending s)((g, u) := None)\<rparr>)
                   | None \<Rightarrow> s);
             (task, s2) = create_task (delayed_start_coro g u member state) s1
         in (None, s2\<lparr>members_pending := (members_pending s2)((g, u) \<mapsto> task)\<rparr>))
      else
        (case channel state of
           None \<Rightarrow> (Some AttributeError, s)
         | Some c \<Rightarrow>
             (let s1 = s\<lparr>current_sessions := (current_sessions s)((g, u) \<mapsto> create_row cl now g u c state)\<rparr>;
                  self = length (objects s1);
                  s2 = s1\<lparr>objects := objects s1 @ [\<lparr>s_guildid = g, s_userid = u, expiry_task = None\<rparr>]\<rparr>
              in (None, activate self s2))))"

text \<open>
  \<open>Session._delayed_start\<close>, in its two turns: the delay is read when the task first
  runs, and \<open>start\<close> is called with the stored member and voice state when the sleep
  returns. A cancelled task does not call \<open>start\<close>.
\<close>

definition delayed_start_begin :: "nat \<Rightarrow> tracker \<Rightarrow> tracker" where
  "delayed_start_begin t s =
     (case (coro (tasks s ! t), task_state (tasks s ! t)) of
        (delayed_start_coro g u member state, Created) \<Rightarrow>
          set_task_state t (Sleeping (remaining_in_day (lion s (g, u)))) s
      | _ \<Rightarrow> s)"

definition delayed_start_wake :: "client \<Rightarrow> datetime \<Rightarrow> nat \<Rightarrow> tracker \<Rightarrow> error option \<times> tracker" where
  "delayed_start_wake cl now t s =
     (case (coro (tasks s ! t), task_state (tasks s ! t)) of
        (delayed_start_coro g u member state, Sleeping d) \<Rightarrow>
          (let (e, s1) = start cl now member state s
           in (e, if task_done s1 t then s1 else set_task_state t Finished s1))
      | _ \<Rightarrow> (None, s))"

text \<open>
  \<open>Session.save_live_status\<close>: \<open>self.data\<close> is the row fetched by the key of the
  session, \<open>None\<close> when there is none.
\<close>

definition save_live_status :: "datetime \<Rightarrow> nat \<Rightarrow> VoiceState \<Rightarrow> tracker \<Rightarrow> error option \<times> tracker" where
  "save_live_status now self state s =
     (case current_sessions s (key (objects s ! self)) of
        None \<Rightarrow> (Some AttributeError, s)
      | Some data \<Rightarrow>
          (None, s\<lparr>current_sessions :=
                     (current_sessions s)(key (objects s ! self) \<mapsto> batch_update now state data)\<rparr>))"

section \<open>study/tracking/time\_tracker.py\<close>

record VoiceChannel =
  vc_id :: channelid
  vc_members :: "Member list"

record Guild =
  g_id :: guildid
  voice_channels :: "VoiceChannel list"

text \<open>
  The calls that \<open>_scan\<close> makes on a member's \<open>Lion\<close>, in order:
  \<open>addTime(amount, flush)\<close> and \<open>addCoins(amount, flush, bonus)\<close>. Timestamps of the
  scanner are \<open>time()\<close> floats, in seconds; they are reals here.
\<close>

datatype lion_call =
  addTime guildid userid real bool
  | addCoins guildid userid real bool bool

record scanner =
  last_scan :: "guildid \<rightharpoonup> real"
  ledger :: "lion_call list"

text \<open>The \<open>for member in members\<close> loop; reading \<open>member.voice.self_stream\<close> of a member
  without a voice state raises.\<close>

fun scan_members :: "client \<Rightarrow> guildid \<Rightarrow> real \<Rightarrow> Member list \<Rightarrow> lion_call list \<Rightarrow> error option \<times> lion_call list" where
  "scan_members cl g interval [] calls = (None, calls)"
| "scan_members cl g interval (member # members) calls =
     (if bot member then scan_members cl g interval members calls
      else if member_id member \<in> user_blacklist cl \<or> member_id member \<in> ignored_members cl g
      then scan_members cl g interval members calls
      else
        (let calls1 = calls @ [addTime g (member_id member) interval False] in
         case voice member of
           None \<Rightarrow> (Some AttributeError, calls1)
         | Some v \<Rightarrow>
             (let hour_reward = (if self_stream v \<or> self_video v
                                 then hourly_reward cl g + hourly_live_bonus cl g
                                 else hourly_reward cl g)
              in scan_members cl g interval members
                   (calls1 @ [addCoins g (member_id member)
                                (real_of_int hour_reward * interval / 3600) False True]))))"

definition scan :: "client \<Rightarrow> real \<Rightarrow> Guild \<Rightarrow> scanner \<Rightarrow> error option \<times> scanner" where
  "scan cl now guild s =
     (let s1 = s\<lparr>last_scan := (last_scan s)(g_id guild \<mapsto> now)\<rparr> in
      case last_scan s (g_id guild) of
        None \<Rightarrow> (None, s1)
      | Some last_time \<Rightarrow>
          (let interval = now - last_time in
           if interval > 60 * 20 then (None, s1)
           else
             (let members = concat (map vc_members
                               (filter (\<lambda>c. vc_id c \<notin> untracked_channels cl (g_id guild))
                                  (voice_channels guild)));
                  (e, calls) = scan_members cl (g_id guild) interval members (ledger s1)
              in (e, s1\<lparr>ledger := calls\<rparr>))))"

section \<open>accountability/commands.py\<close>

subsection \<open>\<open>ensure_exclusive\<close>\<close>

text \<open>
  The command context \<open>ctx\<close> of the flow, with what \<open>ensure_exclusive\<close> reads:
  \<open>ctx.author.id\<close>, \<open>ctx.msg.id\<close> and the list \<open>ctx.tasks\<close>. Contexts are
  objects shared by reference; \<open>user_locks\<close> maps a user to the position of a
  context in the list of all contexts. \<open>cancelled_tasks\<close> are the tasks on which
  \<open>cancel()\<close> has been called.
\<close>

record Context =
  author_id :: userid
  msg_id :: nat
  ctx_tasks :: "nat list"

record exclusive =
  user_locks :: "userid \<rightharpoonup> nat"
  contexts :: "Context list"
  cancelled_tasks :: "nat set"

text \<open>
  \<open>ensure_exclusive\<close> is a context manager: the part before the \<open>yield\<close> runs
  when the \<open>with\<close> block is entered, the \<open>finally\<close> part when the block is
  left, normally or by an exception.
\<close>

definition ensure_exclusive_enter :: "nat \<Rightarrow> exclusive \<Rightarrow> exclusive" where
  "ensure_exclusive_enter ctx s =
     (let author = author_id (contexts s ! ctx);
          old_ctx = user_locks s author;
          s1 = s\<lparr>user_locks := (user_locks s)(author := None)\<rparr>;
          s2 = (case old_ctx of
                  Some old \<Rightarrow> s1\<lparr>cancelled_tasks := cancelled_tasks s1 \<union> set (ctx_tasks (contexts s1 ! old))\<rparr>
                | None \<Rightarrow> s1)
      in s2\<lparr>user_locks := (user_locks s2)(author \<mapsto> ctx)\<rparr>)"

definition ensure_exclusive_exit :: "nat \<Rightarrow> exclusive \<Rightarrow> exclusive" where
  "ensure_exclusive_exit ctx s =
     (let author = author_id (contexts s ! ctx) in
      case user_locks s author of
        Some new_ctx \<Rightarrow>
          (if msg_id (contexts s ! new_ctx) = msg_id (contexts s ! ctx)
           then s\<lparr>user_locks := (user_locks s)(author := None)\<rparr>
           else s)
      | None \<Rightarrow> s)"

subsection \<open>The attendance streak\<close>

text \<open>
  The streak calculation of \<open>cmd_rooms\<close>. A row of \<open>history\<close> has the column
  \<open>attended\<close> and the start of the slot. \<open>date\<close> is the day cursor, an instant
  like the starts; \<open>daydiff\<close> is \<open>timedelta(days=1)\<close>. Instants are unbounded
  here: the least \<open>datetime\<close> of Python is in the year 1, far below any slot.
\<close>

record history_row =
  attended :: bool
  h_start_at :: datetime

record streak_state =
  loop_i :: nat
  streak :: nat
  current_streak :: "nat option"
  max_streak :: nat
  day_attended :: "bool option"
  date :: datetime

definition daydiff :: timedelta where
  "daydiff = 86400000000"

definition streak_init :: "datetime \<Rightarrow> streak_state" where
  "streak_init date0 = \<lparr>loop_i = 0, streak = 0, current_streak = None, max_streak = 0,
      day_attended = None, date = date0\<rparr>"

text \<open>
  The three statements after the \<open>if\<close> chain, reached by the branches that do not
  \<open>continue\<close>.
\<close>

definition streak_broken :: "streak_state \<Rightarrow> streak_state" where
  "streak_broken s =
     s\<lparr>max_streak := max (max_streak s) (streak s),
       current_streak := (case current_streak s of None \<Rightarrow> Some (streak s) | Some c \<Rightarrow> Some c),
       streak := 0\<rparr>"

text \<open>
  One iteration of \<open>while i < len(history)\<close>.
\<close>

definition streak_step :: "history_row list \<Rightarrow> streak_state \<Rightarrow> streak_state" where
  "streak_step history s =
     (let row = history ! loop_i s;
          s1 = s\<lparr>loop_i := loop_i s + 1\<rparr>
      in if \<not> attended row then streak_broken s1
         else if h_start_at row > date s1 then s1\<lparr>day_attended := Some True\<rparr>
         else if day_attended s1 = None then
           s1\<lparr>day_attended := Some False, date := date s1 - daydiff, loop_i := loop_i s1 - 1\<rparr>
         else if day_attended s1 = Some False then
           streak_broken (s1\<lparr>date := date s1 - daydiff, loop_i := loop_i s1 - 1\<rparr>)
         else
           s1\<lparr>streak := streak s1 + 1, date := date s1 - daydiff, day_attended := Some False,
              loop_i := loop_i s1 - 1\<rparr>)"

text \<open>
  The loop: \<open>None\<close> would be a loop that does not end.
\<close>

definition streak_loop :: "history_row list \<Rightarrow> streak_state \<Rightarrow> streak_state option" where
  "streak_loop history s = while_option (\<lambda>s. loop_i s < length history) (streak_step history) s"

text \<open>
  The statements after the loop; the result is \<open>(current_streak, max_streak)\<close>.
\<close>

definition streak_exit :: "streak_state \<Rightarrow> nat \<times> nat" where
  "streak_exit s =
     (let streak1 = (if day_attended s = Some True then streak s + 1 else streak s);
          max_streak1 = max (max_streak s) streak1;
          current_streak1 = (case current_streak s of None \<Rightarrow> streak1 | Some c \<Rightarrow> c)
      in (current_streak1, max_streak1))"

definition calculate_streak :: "history_row list \<Rightarrow> datetime \<Rightarrow> (nat \<times> nat) option" where
  "calculate_streak history date0 = map_option streak_exit (streak_loop history (streak_init date0))"

subsection \<open>Booking and cancelling\<close>

text \<open>
  Rows of the tables the booking commands use: \<open>accountability_rooms\<close> (a slot of a
  guild), \<open>accountability_members\<close> (a reservation; its columns are, in order,
  \<open>slotid\<close>, \<open>userid\<close>, \<open>paid\<close>, so that \<open>row[2]\<close> is the amount paid), and the
  rows of the view \<open>accountability_member_info\<close> that \<open>cmd_rooms\<close> selects as
  \<open>joined_rows\<close>.
\<close>

record slot_row =
  slotid :: nat
  slot_guildid :: guildid
  slot_start_at :: datetime
  slot_channelid :: "channelid option"
  slot_messageid :: "nat option"

record member_row =
  m_slotid :: nat
  m_userid :: userid
  paid :: int

record info_row =
  j_slotid :: nat
  j_guildid :: guildid
  j_start_at :: datetime

text \<open>
  The \<open>upcoming_slot\<close> of a guild in \<open>AGuild.cache\<close>, with what the commands read
  and write: its start time, its data row (absent until the slot is loaded), its
  channel and its member set. In \<open>cache\<close>, a guild without an entry has no
  \<open>AGuild\<close>, and the entry \<open>Some None\<close> is an \<open>AGuild\<close> without upcoming slot.
\<close>

record TimeSlot =
  ts_start_time :: datetime
  ts_data :: "slot_row option"
  ts_channel :: "channelid option"
  ts_members :: "userid \<rightharpoonup> nat"

text \<open>
  What a command does to the tables, to the upcoming slot and to the member's coins, in
  the order in which it does it, with the entry and the exit of
  \<open>async with room_lock\<close>.
\<close>

datatype event =
  acquire_room_lock
  | release_room_lock
  | fetch_slot_rows
  | insert_slot_rows
  | insert_member_rows
  | delete_member_rows
  | slot_refresh
  | slot_open
  | update_slot_row
  | set_slot_member
  | pop_slot_member
  | set_permissions
  | update_status
  | alion_addCoins int

record accountability =
  accountability_rooms :: "slot_row list"
  accountability_members :: "member_row list"
  next_slotid :: nat
  coins :: "userid \<Rightarrow> int"
  cache :: "guildid \<rightharpoonup> TimeSlot option"
  trace :: "event list"

text \<open>
  The outcome of the awaited calls of a command: what \<open>slot.open()\<close> returns
  (\<open>None\<close>: it raises), and whether \<open>slot.update_status()\<close> raises. A
  \<open>discord.HTTPException\<close> of \<open>set_permissions\<close> is caught by the command.
\<close>

record discord_calls =
  open_result :: "(channelid \<times> nat) option"
  update_status_raises :: bool

text \<open>
  A command ends by returning after its work, by an \<open>error_reply\<close>, or by an
  exception.
\<close>

datatype error_text =
  No_valid_sessions_selected
  | Cant_book_a_running_session
  | Booking_costs_more_coins_than_you_have
  | No_valid_sessions_selected_for_cancellation
  | Cant_cancel_a_running_session

datatype outcome = completed | error_reply error_text | raised

definition emit :: "event list \<Rightarrow> accountability \<Rightarrow> accountability" where
  "emit es s = s\<lparr>trace := trace s @ es\<rparr>"

text \<open>
  \<open>await slot.update_status()\<close>.
\<close>

definition slot_update_status :: "discord_calls \<Rightarrow> accountability \<Rightarrow> bool \<times> accountability" where
  "slot_update_status dc s = (\<not> update_status_raises dc, emit [update_status] s)"

text \<open>
  Modelled from the spec: \<open>TimeSlot._refresh\<close>, which is not part of
  \<open>commands.py\<close>. It loads the data row of the slot: the row of
  \<open>accountability_rooms\<close> of the guild with the start time of the slot.
\<close>

definition slot_refresh_data :: "guildid \<Rightarrow> TimeSlot \<Rightarrow> accountability \<Rightarrow> slot_row option" where
  "slot_refresh_data g slot s =
     (case filter (\<lambda>r. slot_guildid r = g \<and> slot_start_at r = ts_start_time slot) (accountability_rooms s) of
        [] \<Rightarrow> None
      | r # _ \<Rightarrow> Some r)"

text \<open>
  \<open>accountability_rooms.update_where({'channelid': ..., 'messageid': ...}, slotid=...)\<close>.
\<close>

definition update_where_slotid :: "channelid \<Rightarrow> nat \<Rightarrow> nat \<Rightarrow> slot_row list \<Rightarrow> slot_row list" where
  "update_where_slotid cid mid sid rows =
     map (\<lambda>r. if slotid r = sid
               then r\<lparr>slot_channelid := Some cid, slot_messageid := Some mid\<rparr>
               else r) rows"

text \<open>
  The block of the book branch under "Handle case where the slot has already opened".
  The result says whether the block returned; \<open>slot.data.slotid\<close> of a slot without
  data and \<open>slot.channel.set_permissions\<close> of a slot without channel raise. That
  \<open>slot.open()\<close> stores the new channel in the slot is modelled from the spec
  (activation creates the room and message identities).
\<close>

definition book_activation :: "discord_calls \<Rightarrow> guildid \<Rightarrow> userid \<Rightarrow> datetime list \<Rightarrow> accountability \<Rightarrow> bool \<times> accountability" where
  "book_activation dc g author to_book s =
     (case cache s g of
        None \<Rightarrow> (True, s)
      | Some None \<Rightarrow> (True, s)
      | Some (Some slot) \<Rightarrow>
          if ts_start_time slot \<in> set to_book then
            (case ts_data slot of
               None \<Rightarrow>
                 (let data = slot_refresh_data g slot s;
                      s1 = emit [slot_refresh, slot_open]
                             (s\<lparr>cache := (cache s)(g \<mapsto> Some (slot\<lparr>ts_data := data\<rparr>))\<rparr>)
                  in case open_result dc of
                       None \<Rightarrow> (False, s1)
                     | Some (cid, mid) \<Rightarrow>
                         (case data of
                            None \<Rightarrow> (False, s1)
                          | Some d \<Rightarrow>
                              slot_update_status dc
                                (emit [update_slot_row]
                                   (s1\<lparr>accountability_rooms :=
                                          update_where_slotid cid mid (slotid d)
                                            (accountability_rooms s1),
                                        cache := (cache s1)(g \<mapsto>
                                          Some (slot\<lparr>ts_data := data, ts_channel := Some cid\<rparr>))\<rparr>))))
             | Some d \<Rightarrow>
                 (let s1 = emit [set_slot_member]
                             (s\<lparr>cache := (cache s)(g \<mapsto>
                                  Some (slot\<lparr>ts_members := (ts_members slot)(author \<mapsto> slotid d)\<rparr>))\<rparr>)
                  in case ts_channel slot of
                       None \<Rightarrow> (False, s1)
                     | Some c \<Rightarrow> slot_update_status dc (emit [set_permissions] s1)))
          else (True, s))"

text \<open>
  \<open>[rows[index] for index in parse_ranges(message.content) if index < len(rows)]\<close>.
\<close>

definition selection :: "'a list \<Rightarrow> nat list \<Rightarrow> 'a list" where
  "selection rows indexes = map (\<lambda>index. rows ! index) (filter (\<lambda>index. index < length rows) indexes)"

text \<open>
  The rows \<open>insert_many\<close> creates for the start times without a slot; the table
  numbers them from its next identifier.
\<close>

definition new_slot_rows :: "guildid \<Rightarrow> nat \<Rightarrow> datetime list \<Rightarrow> slot_row list" where
  "new_slot_rows g next to_add =
     map (\<lambda>(n, start_at). \<lparr>slotid = next + n, slot_guildid = g, slot_start_at = start_at,
                             slot_channelid = None, slot_messageid = None\<rparr>)
       (enumerate 0 to_add)"

text \<open>
  The part of the book branch under "Add the member to data, creating the row if
  required". \<open>to_add\<close> is a Python set; its order, which the statements below do not
  depend on, is the one of \<open>to_book\<close>.
\<close>

definition book_rows :: "guildid \<Rightarrow> userid \<Rightarrow> int \<Rightarrow> datetime list \<Rightarrow> accountability \<Rightarrow> accountability" where
  "book_rows g author price to_book s =
     (let slot_rows = filter (\<lambda>r. slot_guildid r = g \<and> slot_start_at r \<in> set to_book)
                        (accountability_rooms s);
          to_add = remdups (filter (\<lambda>t. t \<notin> set (map slot_start_at slot_rows)) to_book);
          inserted = new_slot_rows g (next_slotid s) to_add;
          s1 = (if to_add \<noteq> []
                then emit [fetch_slot_rows, insert_slot_rows]
                       (s\<lparr>accountability_rooms := accountability_rooms s @ inserted,
                          next_slotid := next_slotid s + length to_add\<rparr>)
                else emit [fetch_slot_rows] s);
          slotids = map slotid slot_rows @ map slotid inserted
      in emit [insert_member_rows]
           (s1\<lparr>accountability_members := accountability_members s1 @
                  map (\<lambda>sid. \<lparr>m_slotid = sid, m_userid = author, paid = price\<rparr>) slotids\<rparr>))"

text \<open>
  The book branch of \<open>cmd_rooms\<close> from the reply of the member on: \<open>times_shown\<close>
  is the list \<open>times\<close> of the menu, \<open>indexes\<close> what \<open>parse_ranges\<close> yields,
  \<open>price\<close> the setting \<open>accountability_price\<close>, \<open>coins s author\<close> the coins of
  \<open>ctx.alion\<close>.
\<close>

definition book_branch :: "discord_calls \<Rightarrow> int \<Rightarrow> guildid \<Rightarrow> userid \<Rightarrow> datetime \<Rightarrow> datetime list \<Rightarrow> nat list \<Rightarrow> accountability \<Rightarrow> outcome \<times> accountability" where
  "book_branch dc price g author now times_shown indexes s =
     (let to_book = selection times_shown indexes in
      if to_book = [] then (error_reply No_valid_sessions_selected, s)
      else if list_ex (\<lambda>time. time < now) to_book then (error_reply Cant_book_a_running_session, s)
      else
        (let cost = int (length to_book) * price in
         if cost > coins s author then (error_reply Booking_costs_more_coins_than_you_have, s)
         else
           (case book_activation dc g author to_book (book_rows g author price to_book s) of
              (True, s3) \<Rightarrow>
                (completed, emit [alion_addCoins (- cost)]
                              (s3\<lparr>coins := (coins s3)(author := coins s3 author - cost)\<rparr>))
            | (False, s3) \<Rightarrow> (raised, s3))))"

text \<open>
  The loop \<open>for row in to_cancel\<close> of the cancel branch, which ends at the first
  row whose guild has the upcoming slot among the cancelled ones.
\<close>

fun cancel_upcoming :: "discord_calls \<Rightarrow> userid \<Rightarrow> nat list \<Rightarrow> info_row list \<Rightarrow> accountability \<Rightarrow> bool \<times> accountability" where
  "cancel_upcoming dc author slotids [] s = (True, s)"
| "cancel_upcoming dc author slotids (row # rows) s =
     (case cache s (j_guildid row) of
        Some (Some slot) \<Rightarrow>
          (case ts_data slot of
             Some d \<Rightarrow>
               if slotid d \<in> set slotids then
                 (let s1 = emit [pop_slot_member]
                             (s\<lparr>cache := (cache s)(j_guildid row \<mapsto>
                                  Some (slot\<lparr>ts_members := (ts_members slot)(author := None)\<rparr>))\<rparr>);
                      s2 = (if ts_channel slot \<noteq> None then emit [set_permissions] s1 else s1)
                  in slot_update_status dc s2)
               else cancel_upcoming dc author slotids rows s
           | None \<Rightarrow> cancel_upcoming dc author slotids rows s)
      | _ \<Rightarrow> cancel_upcoming dc author slotids rows s)"

text \<open>
  The cancel branch of \<open>cmd_rooms\<close> from the reply of the member on. The lock is
  released when the block is left, also by an exception.
\<close>

definition cancel_branch :: "discord_calls \<Rightarrow> userid \<Rightarrow> datetime \<Rightarrow> info_row list \<Rightarrow> nat list \<Rightarrow> accountability \<Rightarrow> outcome \<times> accountability" where
  "cancel_branch dc author now joined_rows indexes s =
     (let to_cancel = selection joined_rows indexes in
      if to_cancel = [] then (error_reply No_valid_sessions_selected_for_cancellation, s)
      else if list_ex (\<lambda>row. j_start_at row < now) to_cancel
      then (error_reply Cant_cancel_a_running_session, s)
      else
        (let slotids = map j_slotid to_cancel;
             s1 = emit [acquire_room_lock] s;
             deleted = filter (\<lambda>m. m_userid m = author \<and> m_slotid m \<in> set slotids)
                         (accountability_members s1);
             s2 = emit [delete_member_rows]
                    (s1\<lparr>accountability_members :=
                           filter (\<lambda>m. \<not> (m_userid m = author \<and> m_slotid m \<in> set slotids))
                             (accountability_members s1)\<rparr>);
             (ok, s3) = cancel_upcoming dc author slotids to_cancel s2;
             s4 = emit [release_room_lock] s3
         in if ok
            then (completed, emit [alion_addCoins (sum_list (map paid deleted))]
                               (s4\<lparr>coins := (coins s4)(author := coins s4 author + sum_list (map paid deleted))\<rparr>))
            else (raised, s4)))"

section \<open>Quantities the statements below speak of\<close>

text \<open>The time a sub-timer contributes at the instant \<open>now\<close>: nothing when it is
  not running.\<close>

definition elapsed :: "datetime \<Rightarrow> datetime option \<Rightarrow> real" where
  "elapsed now started = (case started of Some t \<Rightarrow> total_seconds (now - t) | None \<Rightarrow> 0)"

text \<open>The members \<open>_scan\<close> credits, and the calls it makes on the \<open>Lion\<close> of each.\<close>

definition scanned_members :: "client \<Rightarrow> Guild \<Rightarrow> Member list" where
  "scanned_members cl guild =
     filter (\<lambda>m. \<not> bot m \<and> member_id m \<notin> user_blacklist cl
                  \<and> member_id m \<notin> ignored_members cl (g_id guild))
       (concat (map vc_members
          (filter (\<lambda>c. vc_id c \<notin> untracked_channels cl (g_id guild)) (voice_channels guild))))"

definition is_live :: "Member \<Rightarrow> bool" where
  "is_live m = (case voice m of Some v \<Rightarrow> self_stream v \<or> self_video v | None \<Rightarrow> False)"

definition credit :: "client \<Rightarrow> guildid \<Rightarrow> real \<Rightarrow> Member \<Rightarrow> lion_call list" where
  "credit cl g interval m =
     [addTime g (member_id m) interval False,
      addCoins g (member_id m)
        (real_of_int (hourly_reward cl g + (if is_live m then hourly_live_bonus cl g else 0))
           * interval / 3600) False True]"

text \<open>
  Every cached session is an object of the tracker, and is cached under its own key: the
  cache holds at most one session for a member, and no session twice.
\<close>

definition store_inv :: "tracker \<Rightarrow> bool" where
  "store_inv s = (\<forall>k self. sessions s k = Some self \<longrightarrow>
                    self < length (objects s) \<and> key (objects s ! self) = k)"

text \<open>
  Every \<open>_delayed_start\<close> task that is not done is the one registered in
  \<open>members_pending\<close> for its member: a member has at most one pending start.
\<close>

definition pending_inv :: "tracker \<Rightarrow> bool" where
  "pending_inv s = (\<forall>t < length (tasks s). \<forall>g u member state.
      coro (tasks s ! t) = delayed_start_coro g u member state \<and> \<not> task_done s t
        \<longrightarrow> members_pending s (g, u) = Some t)"

text \<open>No session object holds a task in \<open>_expiry_task\<close>.\<close>

definition no_expiry_handle :: "tracker \<Rightarrow> bool" where
  "no_expiry_handle s = (\<forall>self \<in> set (objects s). expiry_task self = None)"

text \<open>
  The tasks of the context registered for a user, as they are at this moment.
\<close>

definition superseded_tasks :: "exclusive \<Rightarrow> userid \<Rightarrow> nat set" where
  "superseded_tasks s author =
     (case user_locks s author of Some old \<Rightarrow> set (ctx_tasks (contexts s ! old)) | None \<Rightarrow> {})"

text \<open>
  What decreases in every iteration: the rows left, then the distance of the cursor
  above the start of the row at the index when that row was attended and is not above
  the cursor.
\<close>

definition streak_measure :: "history_row list \<Rightarrow> streak_state \<Rightarrow> nat \<times> nat" where
  "streak_measure history s =
     (length history - loop_i s,
      (if loop_i s < length history \<and> attended (history ! loop_i s)
            \<and> h_start_at (history ! loop_i s) \<le> date s
       then nat (date s - h_start_at (history ! loop_i s)) + 1 else 0))"




text \<open>
  The steps that the specification puts under the room lock: the lookup and the
  creation of slots, the activation of a slot and the mutation of the member set of the
  live room. A trace is guarded when each of them happens between an entry and an exit
  of the lock.
\<close>

definition critical :: "event \<Rightarrow> bool" where
  "critical e = (e = fetch_slot_rows \<or> e = insert_slot_rows \<or> e = slot_refresh \<or> e = slot_open
                 \<or> e = update_slot_row \<or> e = set_slot_member \<or> e = pop_slot_member)"

fun guarded :: "bool \<Rightarrow> event list \<Rightarrow> bool" where
  "guarded held [] = True"
| "guarded held (e # es) =
     (if e = acquire_room_lock then guarded True es
      else if e = release_room_lock then guarded False es
      else if critical e then held \<and> guarded held es
      else guarded held es)"


text \<open>
  The reservations of a member that \<open>delete_where\<close> deletes and returns, and the
  ones it leaves.
\<close>

definition cancelled_rows :: "userid \<Rightarrow> info_row list \<Rightarrow> member_row list \<Rightarrow> member_row list" where
  "cancelled_rows author to_cancel rows =
     filter (\<lambda>m. m_userid m = author \<and> m_slotid m \<in> set (map j_slotid to_cancel)) rows"

definition remaining_rows :: "userid \<Rightarrow> info_row list \<Rightarrow> member_row list \<Rightarrow> member_row list" where
  "remaining_rows author to_cancel rows =
     filter (\<lambda>m. \<not> (m_userid m = author \<and> m_slotid m \<in> set (map j_slotid to_cancel))) rows"

section \<open>Example data\<close>

text \<open>A guild with one tracked voice channel and one member in it, used where a
  statement is evaluated at a concrete input.\<close>

definition demo_client :: client where
  "demo_client = \<lparr>untracked_channels = (\<lambda>_. {4}), hourly_reward = (\<lambda>_. 6),
      hourly_live_bonus = (\<lambda>_. 2), user_blacklist = {9}, ignored_members = (\<lambda>_. {}),
      rented_row_cache = {}, accountability_rooms_row_cache = {}\<rparr>"

definition demo_member :: Member where
  "demo_member = \<lparr>guild_id = 2, member_id = 7, bot = False,
      voice = Some \<lparr>channel = Some 3, self_video = False, self_stream = False\<rparr>\<rparr>"

definition demo_guild :: Guild where
  "demo_guild = \<lparr>g_id = 2, voice_channels = [\<lparr>vc_id = 3, vc_members = [demo_member]\<rparr>]\<rparr>"

definition demo_row :: session_row where
  "demo_row = \<lparr>guildid = 2, userid = 7, channelid = 3, channel_type = STANDARD,
      start_time = 10000000, live_start = Some 10000000, stream_start = None,
      video_start = Some 10000000, live_duration = 0, stream_duration = 0, video_duration = 0,
      hourly_coins = 6, hourly_live_coins = 2\<rparr>"

definition demo_tracker :: tracker where
  "demo_tracker = \<lparr>sessions = [(2, 7) \<mapsto> 0], members_pending = Map.empty,
      objects = [\<lparr>s_guildid = 2, s_userid = 7, expiry_task = None\<rparr>],
      tasks = [\<lparr>coro = schedule_expiry_coro 0, task_state = Created\<rparr>],
      current_sessions = [(2, 7) \<mapsto> demo_row], session_history = [],
      lion = (\<lambda>_. \<lparr>remaining_study_today = 3600, remaining_in_day = 7200\<rparr>)\<rparr>"

definition camera_off :: VoiceState where
  "camera_off = \<lparr>channel = Some 3, self_video = False, self_stream = False\<rparr>"

definition camera_on :: VoiceState where
  "camera_on = \<lparr>channel = Some 3, self_video = True, self_stream = False\<rparr>"

definition empty_tracker :: tracker where
  "empty_tracker = \<lparr>sessions = Map.empty, members_pending = Map.empty, objects = [], tasks = [],
      current_sessions = Map.empty, session_history = [],
      lion = (\<lambda>_. \<lparr>remaining_study_today = 3600, remaining_in_day = 7200\<rparr>)\<rparr>"

definition capped_tracker :: tracker where
  "capped_tracker = \<lparr>sessions = Map.empty, members_pending = [(2, 7) \<mapsto> 0], objects = [],
      tasks = [\<lparr>coro = delayed_start_coro 2 7 demo_member camera_off, task_state = Sleeping 7200\<rparr>],
      current_sessions = Map.empty, session_history = [],
      lion = (\<lambda>_. \<lparr>remaining_study_today = 0, remaining_in_day = 7200\<rparr>)\<rparr>"

definition demo_exclusive :: exclusive where
  "demo_exclusive = \<lparr>user_locks = Map.empty,
      contexts = [\<lparr>author_id = 7, msg_id = 100, ctx_tasks = [11, 12]\<rparr>,
                  \<lparr>author_id = 7, msg_id = 101, ctx_tasks = [13]\<rparr>],
      cancelled_tasks = {}\<rparr>"

definition demo_history :: "history_row list" where
  "demo_history = [\<lparr>attended = True, h_start_at = 867600000000\<rparr>,
                   \<lparr>attended = True, h_start_at = 781200000000\<rparr>,
                   \<lparr>attended = False, h_start_at = 694800000000\<rparr>]"

definition demo_calls :: discord_calls where
  "demo_calls = \<lparr>open_result = Some (30, 40), update_status_raises = False\<rparr>"

definition failing_calls :: discord_calls where
  "failing_calls = \<lparr>open_result = Some (30, 40), update_status_raises = True\<rparr>"


definition booked_accountability :: accountability where
  "booked_accountability = \<lparr>
      accountability_rooms =
        [\<lparr>slotid = 5, slot_guildid = 2, slot_start_at = 7200000000,
          slot_channelid = Some 30, slot_messageid = Some 40\<rparr>,
         \<lparr>slotid = 6, slot_guildid = 2, slot_start_at = 10800000000,
          slot_channelid = None, slot_messageid = None\<rparr>],
      accountability_members =
        [\<lparr>m_slotid = 5, m_userid = 7, paid = 10\<rparr>,
         \<lparr>m_slotid = 6, m_userid = 7, paid = 12\<rparr>,
         \<lparr>m_slotid = 5, m_userid = 8, paid = 10\<rparr>],
      next_slotid = 7,
      coins = (\<lambda>_. 50),
      cache = [2 \<mapsto> Some \<lparr>ts_start_time = 7200000000,
                 ts_data = Some \<lparr>slotid = 5, slot_guildid = 2, slot_start_at = 7200000000,
                                 slot_channelid = Some 30, slot_messageid = Some 40\<rparr>,
                 ts_channel = Some 30,
                 ts_members = [7 \<mapsto> 5, 8 \<mapsto> 5]\<rparr>],
      trace = []\<rparr>"

definition demo_joined_rows :: "info_row list" where
  "demo_joined_rows = [\<lparr>j_slotid = 5, j_guildid = 2, j_start_at = 7200000000\<rparr>,
                       \<lparr>j_slotid = 6, j_guildid = 2, j_start_at = 10800000000\<rparr>]"

definition upcoming_accountability :: accountability where
  "upcoming_accountability = \<lparr>accountability_rooms = [], accountability_members = [], next_slotid = 5,
      coins = (\<lambda>_. 50),
      cache = [2 \<mapsto> Some \<lparr>ts_start_time = 7200000000, ts_data = None, ts_channel = None,
                               ts_members = Map.empty\<rparr>],
      trace = []\<rparr>"

section \<open>Session tracker: live-status sub-timers\<close>

lemma batch_update_video:
  "video_duration (batch_update now state data) = video_duration data + elapsed now (video_start data)"
  "video_start (batch_update now state data) = (if self_video state then Some now else None)"
  by (simp_all add: batch_update_def update_live_def update_stream_def update_video_def
      elapsed_def Let_def split: option.splits)

lemma batch_update_stream:
  "stream_duration (batch_update now state data) = stream_duration data + elapsed now (stream_start data)"
  "stream_start (batch_update now state data) = (if self_stream state then Some now else None)"
  by (simp_all add: batch_update_def update_live_def update_stream_def update_video_def
      elapsed_def Let_def split: option.splits)

lemma batch_update_live:
  "live_duration (batch_update now state data) = live_duration data + elapsed now (live_start data)"
  "live_start (batch_update now state data) =
     (if self_video state \<or> self_stream state then Some now else None)"
  by (simp_all add: batch_update_def update_live_def update_stream_def update_video_def
      elapsed_def Let_def split: option.splits)

text \<open>
  C7. A live-status update of a session whose row is \<open>data\<close> stores an updated row
  under the session's key and changes nothing else. For each of the sub-timers video,
  stream and live (live = video or stream), the duration grows by the time from the
  sub-timer's start to \<open>now\<close> when it was running and by nothing when it was not, and
  the start becomes \<open>now\<close> when the flag is set and \<open>None\<close> otherwise; the three
  use the same \<open>now\<close>. So a sub-timer that was started at \<open>t0\<close> and is switched off
  at \<open>now\<close> records \<open>total_seconds (now - t0)\<close> more.
\<close>

theorem save_live_status_subtimers:
  assumes "current_sessions s (key (objects s ! self)) = Some data"
  shows "\<exists>data'. save_live_status now self state s
            = (None, s\<lparr>current_sessions := (current_sessions s)(key (objects s ! self) \<mapsto> data')\<rparr>)
          \<and> video_duration data' = video_duration data + elapsed now (video_start data)
          \<and> stream_duration data' = stream_duration data + elapsed now (stream_start data)
          \<and> live_duration data' = live_duration data + elapsed now (live_start data)
          \<and> video_start data' = (if self_video state then Some now else None)
          \<and> stream_start data' = (if self_stream state then Some now else None)
          \<and> live_start data' = (if self_video state \<or> self_stream state then Some now else None)
          \<and> (\<forall>t0. video_start data = Some t0 \<and> \<not> self_video state \<longrightarrow>
                 video_duration data' = video_duration data + total_seconds (now - t0)
                 \<and> video_start data' = None)"
proof -
  let ?d = "batch_update now state data"
  have run: "save_live_status now self state s
      = (None, s\<lparr>current_sessions := (current_sessions s)(key (objects s ! self) \<mapsto> ?d)\<rparr>)"
    using assms by (simp add: save_live_status_def)
  have off: "\<forall>t0. video_start data = Some t0 \<and> \<not> self_video state \<longrightarrow>
                 video_duration ?d = video_duration data + total_seconds (now - t0)
                 \<and> video_start ?d = None"
    by (simp add: batch_update_video elapsed_def)
  show ?thesis
    using run off batch_update_video batch_update_stream batch_update_live by blast
qed

theorem save_live_status_subtimers_witness:
  "current_sessions demo_tracker (key (objects demo_tracker ! 0)) = Some demo_row
   \<and> (\<exists>data'. save_live_status 100000000 0 camera_off demo_tracker
            = (None, demo_tracker\<lparr>current_sessions := (current_sessions demo_tracker)((2, 7) \<mapsto> data')\<rparr>)
        \<and> video_duration data' = 90 \<and> video_start data' = None
        \<and> live_duration data' = 90 \<and> live_start data' = None
        \<and> stream_duration data' = 0)"
proof -
  have h: "current_sessions demo_tracker (key (objects demo_tracker ! 0)) = Some demo_row"
    by (simp add: demo_tracker_def key_def)
  have k: "key (objects demo_tracker ! 0) = (2, 7)"
    by (simp add: demo_tracker_def key_def)
  from save_live_status_subtimers [OF h, of 100000000 camera_off]
  obtain data' where d: "save_live_status 100000000 0 camera_off demo_tracker
            = (None, demo_tracker\<lparr>current_sessions := (current_sessions demo_tracker)(key (objects demo_tracker ! 0) \<mapsto> data')\<rparr>)"
      "video_duration data' = video_duration demo_row + elapsed 100000000 (video_start demo_row)"
      "stream_duration data' = stream_duration demo_row + elapsed 100000000 (stream_start demo_row)"
      "live_duration data' = live_duration demo_row + elapsed 100000000 (live_start demo_row)"
      "video_start data' = (if self_video camera_off then Some 100000000 else None)"
      "live_start data' = (if self_video camera_off \<or> self_stream camera_off then Some 100000000 else None)"
    by blast
  have "video_duration data' = 90" "stream_duration data' = 0" "live_duration data' = 90"
       "video_start data' = None" "live_start data' = None"
    using d(2-6) by (simp_all add: demo_row_def elapsed_def total_seconds_def camera_off_def)
  with d(1) h k show ?thesis by auto
qed

section \<open>Session tracker: starting a session\<close>

lemma start_exists:
  "(guild_id member, member_id member) \<in> dom (sessions s) \<Longrightarrow>
     start cl now member state s = (Some ValueError, s)"
  by (simp add: start_def Let_def)

lemma start_other_keys:
  assumes "k \<in> dom (sessions s)"
  shows "sessions (snd (start cl now member state s)) k = sessions s k"
    and "current_sessions (snd (start cl now member state s)) k = current_sessions s k"
  using assms
  by (auto simp add: start_def Let_def create_task_def cancel_def set_task_state_def
      activate_def schedule_expiry_def key_def split: option.splits prod.splits)

lemma start_objects_prefix:
  "take (length (objects s)) (objects (snd (start cl now member state s))) = objects s"
  by (auto simp add: start_def Let_def create_task_def cancel_def set_task_state_def
      activate_def schedule_expiry_def key_def split: option.splits prod.splits)

lemma start_capped_store:
  assumes "(guild_id member, member_id member) \<notin> dom (sessions s)"
    and "remaining_study_today (lion s (guild_id member, member_id member)) \<le> 0"
  shows "sessions (snd (start cl now member state s)) = sessions s"
    and "objects (snd (start cl now member state s)) = objects s"
    and "current_sessions (snd (start cl now member state s)) = current_sessions s"
    and "session_history (snd (start cl now member state s)) = session_history s"
    and "fst (start cl now member state s) = None"
  using assms
  by (auto simp add: start_def Let_def create_task_def cancel_def set_task_state_def
      split: option.splits prod.splits)

lemma start_created:
  assumes "(guild_id member, member_id member) \<notin> dom (sessions s)"
    and "\<not> remaining_study_today (lion s (guild_id member, member_id member)) \<le> 0"
    and "channel state = Some c"
  shows "start cl now member state s =
     (None, s\<lparr>current_sessions := (current_sessions s)((guild_id member, member_id member) \<mapsto>
                  create_row cl now (guild_id member) (member_id member) c state),
               objects := objects s @ [\<lparr>s_guildid = guild_id member, s_userid = member_id member,
                                         expiry_task = None\<rparr>],
               sessions := (sessions s)((guild_id member, member_id member) \<mapsto> length (objects s)),
               tasks := tasks s @ [\<lparr>coro = schedule_expiry_coro (length (objects s)),
                                     task_state = Created\<rparr>]\<rparr>)"
  using assms
  by (simp add: start_def Let_def create_task_def activate_def schedule_expiry_def key_def)

lemma start_store_inv:
  assumes inv: "store_inv s"
  shows "store_inv (snd (start cl now member state s))"
proof -
  let ?k = "(guild_id member, member_id member)"
  consider (exists) "?k \<in> dom (sessions s)"
    | (capped) "?k \<notin> dom (sessions s)" "remaining_study_today (lion s ?k) \<le> 0"
    | (nochan) "?k \<notin> dom (sessions s)" "\<not> remaining_study_today (lion s ?k) \<le> 0" "channel state = None"
    | (created) c where "?k \<notin> dom (sessions s)" "\<not> remaining_study_today (lion s ?k) \<le> 0"
        "channel state = Some c"
    by (cases "channel state") auto
  then show ?thesis
  proof cases
    case exists
    then show ?thesis using inv by (simp add: start_exists)
  next
    case capped
    then show ?thesis using inv start_capped_store(1,2) [OF capped, of cl now state]
      by (simp add: store_inv_def)
  next
    case nochan
    then have "start cl now member state s = (Some AttributeError, s)"
      by (simp add: start_def Let_def)
    then show ?thesis using inv by simp
  next
    case created
    show ?thesis
      unfolding start_created [OF created] store_inv_def
    proof (intro allI impI)
      fix k self
      assume a: "sessions (snd (None, s\<lparr>current_sessions := (current_sessions s)(?k \<mapsto>
                  create_row cl now (guild_id member) (member_id member) c state),
               objects := objects s @ [\<lparr>s_guildid = guild_id member, s_userid = member_id member,
                                         expiry_task = None\<rparr>],
               sessions := (sessions s)(?k \<mapsto> length (objects s)),
               tasks := tasks s @ [\<lparr>coro = schedule_expiry_coro (length (objects s)),
                                     task_state = Created\<rparr>]\<rparr>)) k = Some self"
      show "self < length (objects (snd (None, s\<lparr>current_sessions := (current_sessions s)(?k \<mapsto>
                  create_row cl now (guild_id member) (member_id member) c state),
               objects := objects s @ [\<lparr>s_guildid = guild_id member, s_userid = member_id member,
                                         expiry_task = None\<rparr>],
               sessions := (sessions s)(?k \<mapsto> length (objects s)),
               tasks := tasks s @ [\<lparr>coro = schedule_expiry_coro (length (objects s)),
                                     task_state = Created\<rparr>]\<rparr>)))
            \<and> key (objects (snd (None, s\<lparr>current_sessions := (current_sessions s)(?k \<mapsto>
                  create_row cl now (guild_id member) (member_id member) c state),
               objects := objects s @ [\<lparr>s_guildid = guild_id member, s_userid = member_id member,
                                         expiry_task = None\<rparr>],
               sessions := (sessions s)(?k \<mapsto> length (objects s)),
               tasks := tasks s @ [\<lparr>coro = schedule_expiry_coro (length (objects s)),
                                     task_state = Created\<rparr>]\<rparr>)) ! self) = k"
      proof (cases "k = ?k")
        case True
        with a show ?thesis by (auto simp add: key_def)
      next
        case False
        with a have "sessions s k = Some self" by simp
        with inv have "self < length (objects s)" "key (objects s ! self) = k"
          unfolding store_inv_def by blast+
        then show ?thesis by (simp add: nth_append)
      qed
    qed
  qed
qed

text \<open>
  C2. \<open>Session.start\<close> for a member who has a session in the cache raises the
  \<open>ValueError\<close> "A session for this member already exists!" and leaves the
  tracker as it was. Whatever its outcome, \<open>start\<close> leaves the cache entry and the
  row of every member who had a session, and every session object, as they were. The
  cache is keyed by member, and \<open>start\<close> keeps every cached session under its own key:
  a member has at most one active session.
\<close>

theorem start_already_active:
  "((guild_id member, member_id member) \<in> dom (sessions s) \<longrightarrow>
      start cl now member state s = (Some ValueError, s))
   \<and> (\<forall>k\<in>dom (sessions s).
        sessions (snd (start cl now member state s)) k = sessions s k
        \<and> current_sessions (snd (start cl now member state s)) k = current_sessions s k)
   \<and> take (length (objects s)) (objects (snd (start cl now member state s))) = objects s
   \<and> (store_inv s \<longrightarrow> store_inv (snd (start cl now member state s)))"
  by (intro conjI ballI impI)
     (simp_all add: start_exists start_other_keys start_objects_prefix start_store_inv)

theorem start_already_active_witness:
  "(guild_id demo_member, member_id demo_member) \<in> dom (sessions demo_tracker)
   \<and> store_inv demo_tracker
   \<and> start demo_client 5 demo_member camera_off demo_tracker = (Some ValueError, demo_tracker)
   \<and> sessions (snd (start demo_client 5 demo_member camera_off demo_tracker)) (2, 7) = Some 0
   \<and> current_sessions (snd (start demo_client 5 demo_member camera_off demo_tracker)) (2, 7)
       = Some demo_row
   \<and> store_inv (snd (start demo_client 5 demo_member camera_off demo_tracker))"
proof -
  have h: "(guild_id demo_member, member_id demo_member) \<in> dom (sessions demo_tracker)"
    by (simp add: demo_member_def demo_tracker_def)
  have k: "(2, 7) \<in> dom (sessions demo_tracker)"
    by (simp add: demo_tracker_def)
  have i: "store_inv demo_tracker"
    by (simp add: store_inv_def demo_tracker_def key_def)
  have v: "sessions demo_tracker (2, 7) = Some 0" "current_sessions demo_tracker (2, 7) = Some demo_row"
    by (simp_all add: demo_tracker_def)
  show ?thesis
    using start_already_active [of demo_member demo_tracker demo_client 5 camera_off] h k i v
    by auto
qed

section \<open>Session tracker: the pending start of a capped member\<close>

lemma start_capped:
  assumes "(guild_id member, member_id member) \<notin> dom (sessions s)"
    and "remaining_study_today (lion s (guild_id member, member_id member)) \<le> 0"
  shows "start cl now member state s =
     (None, s\<lparr>members_pending := (members_pending s)((guild_id member, member_id member) \<mapsto> length (tasks s)),
               tasks := (case members_pending s (guild_id member, member_id member) of
                           Some pending \<Rightarrow>
                             (if pending < length (tasks s) \<and> \<not> task_done s pending
                              then (tasks s)[pending := (tasks s ! pending)\<lparr>task_state := Cancelled\<rparr>]
                              else tasks s)
                         | None \<Rightarrow> tasks s)
                        @ [\<lparr>coro = delayed_start_coro (guild_id member) (member_id member) member state,
                            task_state = Created\<rparr>]\<rparr>)"
  using assms
  by (auto simp add: start_def Let_def create_task_def cancel_def set_task_state_def task_done_def
      split: option.splits)

text \<open>
  C6. \<open>Session.start\<close> for a member without a session (the check of C2 comes first)
  whose \<open>remaining_study_today\<close> is at most 0 returns without an exception; it
  creates no row and no session object and adds nothing to the session cache. The task
  registered before in \<open>members_pending\<close> for the member, if any, is cancelled
  (it is done afterwards); one new \<open>_delayed_start\<close> task is created and registered
  for the member; every other task is as before. When the new task runs it sleeps for
  the member's \<open>remaining_in_day\<close>. If every pending start that was not done was the
  registered one of its member before the call, the same holds after it.
\<close>

theorem start_capped_pending:
  assumes nosession: "(guild_id member, member_id member) \<notin> dom (sessions s)"
    and capped: "remaining_study_today (lion s (guild_id member, member_id member)) \<le> 0"
  shows "\<exists>s'. start cl now member state s = (None, s')
     \<and> current_sessions s' = current_sessions s \<and> sessions s' = sessions s
     \<and> objects s' = objects s \<and> session_history s' = session_history s
     \<and> members_pending s' = (members_pending s)((guild_id member, member_id member) \<mapsto> length (tasks s))
     \<and> length (tasks s') = length (tasks s) + 1
     \<and> tasks s' ! length (tasks s)
          = \<lparr>coro = delayed_start_coro (guild_id member) (member_id member) member state,
             task_state = Created\<rparr>
     \<and> (\<forall>p < length (tasks s). members_pending s (guild_id member, member_id member) = Some p \<longrightarrow>
           task_done s' p \<and> coro (tasks s' ! p) = coro (tasks s ! p))
     \<and> (\<forall>t < length (tasks s). members_pending s (guild_id member, member_id member) \<noteq> Some t \<longrightarrow>
           tasks s' ! t = tasks s ! t)
     \<and> task_state (tasks (delayed_start_begin (length (tasks s)) s') ! length (tasks s))
          = Sleeping (remaining_in_day (lion s (guild_id member, member_id member)))
     \<and> (pending_inv s \<longrightarrow> pending_inv s')"
proof -
  let ?k = "(guild_id member, member_id member)"
  let ?n = "length (tasks s)"
  let ?old = "(case members_pending s ?k of
                 Some pending \<Rightarrow>
                   (if pending < ?n \<and> \<not> task_done s pending
                    then (tasks s)[pending := (tasks s ! pending)\<lparr>task_state := Cancelled\<rparr>]
                    else tasks s)
               | None \<Rightarrow> tasks s)"
  let ?new = "\<lparr>coro = delayed_start_coro (guild_id member) (member_id member) member state,
              task_state = Created\<rparr>"
  let ?s' = "s\<lparr>members_pending := (members_pending s)(?k \<mapsto> ?n), tasks := ?old @ [?new]\<rparr>"
  have run: "start cl now member state s = (None, ?s')"
    using start_capped [OF nosession capped] by simp
  have len: "length ?old = ?n"
    by (simp split: option.splits)
  have tasks': "tasks ?s' = ?old @ [?new]" by simp
  have new: "tasks ?s' ! ?n = ?new"
    using len by (simp add: nth_append)
  have below: "\<And>t. t < ?n \<Longrightarrow> tasks ?s' ! t = ?old ! t"
    using len by (simp add: nth_append)
  have prev: "\<forall>p < ?n. members_pending s ?k = Some p \<longrightarrow>
           task_done ?s' p \<and> coro (tasks ?s' ! p) = coro (tasks s ! p)"
  proof (intro allI impI)
    fix p assume p: "p < ?n" and m: "members_pending s ?k = Some p"
    have "tasks ?s' ! p = ?old ! p" using below [OF p] .
    then show "task_done ?s' p \<and> coro (tasks ?s' ! p) = coro (tasks s ! p)"
      using p m unfolding task_done_def by (auto simp add: len)
  qed
  have others: "\<forall>t < ?n. members_pending s ?k \<noteq> Some t \<longrightarrow> tasks ?s' ! t = tasks s ! t"
  proof (intro allI impI)
    fix t assume t: "t < ?n" and m: "members_pending s ?k \<noteq> Some t"
    have "?old ! t = tasks s ! t" using m by (auto split: option.splits)
    then show "tasks ?s' ! t = tasks s ! t" using below [OF t] by simp
  qed
  have delay: "task_state (tasks (delayed_start_begin ?n ?s') ! ?n)
          = Sleeping (remaining_in_day (lion s ?k))"
    using new len by (simp add: delayed_start_begin_def set_task_state_def)
  have inv: "pending_inv s \<longrightarrow> pending_inv ?s'"
  proof
    assume i: "pending_inv s"
    show "pending_inv ?s'"
      unfolding pending_inv_def
    proof (intro allI impI)
      fix t g u m st
      assume t: "t < length (tasks ?s')"
        and c: "coro (tasks ?s' ! t) = delayed_start_coro g u m st \<and> \<not> task_done ?s' t"
      show "members_pending ?s' (g, u) = Some t"
      proof (cases "t = ?n")
        case True
        with c have "coro (tasks ?s' ! ?n) = delayed_start_coro g u m st" by simp
        with new have "g = guild_id member \<and> u = member_id member" by auto
        with True show ?thesis by simp
      next
        case False
        with t len have tn: "t < ?n" by simp
        show ?thesis
        proof (cases "members_pending s ?k = Some t")
          case True
          with prev tn c show ?thesis by blast
        next
          case False
          with others tn have same: "tasks ?s' ! t = tasks s ! t" by blast
          with c have "coro (tasks s ! t) = delayed_start_coro g u m st \<and> \<not> task_done s t"
            by (simp add: task_done_def)
          with i tn have mp: "members_pending s (g, u) = Some t"
            unfolding pending_inv_def by blast
          with False have "(g, u) \<noteq> ?k" by auto
          with mp show ?thesis by auto
        qed
      qed
    qed
  qed
  have fields: "current_sessions ?s' = current_sessions s" "sessions ?s' = sessions s"
      "objects ?s' = objects s" "session_history ?s' = session_history s"
      "members_pending ?s' = (members_pending s)(?k \<mapsto> ?n)"
      "length (tasks ?s') = ?n + 1"
    using len by simp_all
  show ?thesis
    using run fields new prev others delay inv by blast
qed

theorem start_capped_pending_witness:
  "(guild_id demo_member, member_id demo_member) \<notin> dom (sessions capped_tracker)
   \<and> remaining_study_today (lion capped_tracker (guild_id demo_member, member_id demo_member)) \<le> 0
   \<and> pending_inv capped_tracker
   \<and> (\<exists>s'. start demo_client 5 demo_member camera_off capped_tracker = (None, s')
         \<and> current_sessions s' = Map.empty \<and> sessions s' = Map.empty
         \<and> members_pending s' (2, 7) = Some 1
         \<and> task_done s' 0
         \<and> tasks s' ! 1 = \<lparr>coro = delayed_start_coro 2 7 demo_member camera_off, task_state = Created\<rparr>
         \<and> task_state (tasks (delayed_start_begin 1 s') ! 1) = Sleeping 7200
         \<and> pending_inv s')"
proof -
  have k: "guild_id demo_member = 2" "member_id demo_member = 7"
    by (simp_all add: demo_member_def)
  have h1: "(guild_id demo_member, member_id demo_member) \<notin> dom (sessions capped_tracker)"
    by (simp add: capped_tracker_def)
  have h2: "remaining_study_today (lion capped_tracker (guild_id demo_member, member_id demo_member)) \<le> 0"
    by (simp add: capped_tracker_def)
  have h3: "pending_inv capped_tracker"
    by (simp add: pending_inv_def capped_tracker_def)
  have c: "length (tasks capped_tracker) = 1" "members_pending capped_tracker (2, 7) = Some 0"
      "current_sessions capped_tracker = Map.empty" "sessions capped_tracker = Map.empty"
      "remaining_in_day (lion capped_tracker (2, 7)) = 7200"
    by (simp_all add: capped_tracker_def)
  from start_capped_pending [OF h1 h2, of demo_client 5 camera_off]
  obtain s' where s': "start demo_client 5 demo_member camera_off capped_tracker = (None, s')"
     "current_sessions s' = current_sessions capped_tracker" "sessions s' = sessions capped_tracker"
     "members_pending s' = (members_pending capped_tracker)((guild_id demo_member, member_id demo_member)
         \<mapsto> length (tasks capped_tracker))"
     "tasks s' ! length (tasks capped_tracker)
          = \<lparr>coro = delayed_start_coro (guild_id demo_member) (member_id demo_member) demo_member camera_off,
             task_state = Created\<rparr>"
     "\<forall>p < length (tasks capped_tracker).
         members_pending capped_tracker (guild_id demo_member, member_id demo_member) = Some p \<longrightarrow>
           task_done s' p \<and> coro (tasks s' ! p) = coro (tasks capped_tracker ! p)"
     "task_state (tasks (delayed_start_begin (length (tasks capped_tracker)) s') ! length (tasks capped_tracker))
          = Sleeping (remaining_in_day (lion capped_tracker (guild_id demo_member, member_id demo_member)))"
     "pending_inv capped_tracker \<longrightarrow> pending_inv s'"
    by blast
  have "task_done s' 0" using s'(6) c k by simp
  moreover have "members_pending s' (2, 7) = Some 1" using s'(4) c k by simp
  moreover have "tasks s' ! 1 = \<lparr>coro = delayed_start_coro 2 7 demo_member camera_off, task_state = Created\<rparr>"
    using s'(5) c k by simp
  moreover have "task_state (tasks (delayed_start_begin 1 s') ! 1) = Sleeping 7200"
    using s'(7) c k by simp
  moreover have "pending_inv s'" using s'(8) h3 by simp
  ultimately show ?thesis using h1 h2 h3 s'(1,2,3) c by auto
qed

section \<open>Session tracker: finishing a session\<close>

text \<open>
  \<open>_schedule_expiry\<close> assigns to \<open>_expiry_task\<close> the result of
  \<open>await asyncio.sleep(...)\<close>, which is \<open>None\<close>; the task that
  \<open>schedule_expiry\<close> creates is stored nowhere. So no operation of the tracker ever
  gives a session object an expiry task, and \<open>finish\<close> cancels no task.
\<close>

lemma close_study_session_fields:
  "objects (close_study_session k s) = objects s"
  "tasks (close_study_session k s) = tasks s"
  "sessions (close_study_session k s) = sessions s"
  "members_pending (close_study_session k s) = members_pending s"
  by (simp_all add: close_study_session_def split: option.splits)

lemma objects_cancel: "objects (cancel t s) = objects s"
  by (simp add: cancel_def set_task_state_def)

lemma objects_finish: "objects (finish self s) = objects s"
  by (simp add: finish_def Let_def close_study_session_fields objects_cancel split: option.splits)

lemma finish_cancels_nothing:
  assumes "no_expiry_handle s" "self < length (objects s)"
  shows "tasks (finish self s) = tasks s"
  using assms
  by (simp add: finish_def Let_def no_expiry_handle_def close_study_session_fields)

lemma no_expiry_handle_start:
  "no_expiry_handle s \<Longrightarrow> no_expiry_handle (snd (start cl now member state s))"
  unfolding no_expiry_handle_def
  by (auto simp add: start_def Let_def create_task_def objects_cancel
      activate_def schedule_expiry_def split: option.splits)

lemma no_expiry_handle_begin:
  "no_expiry_handle s \<Longrightarrow> no_expiry_handle (schedule_expiry_begin t s)"
  unfolding no_expiry_handle_def
  by (auto simp add: schedule_expiry_begin_def Let_def objects_cancel set_task_state_def
      split: option.splits coroutine.splits task_state.splits)

lemma objects_wake:
  "objects (schedule_expiry_wake t s) = objects s
   \<or> (\<exists>self. objects (schedule_expiry_wake t s)
         = (objects s)[self := (objects s ! self)\<lparr>expiry_task := None\<rparr>])"
  by (auto simp add: schedule_expiry_wake_def Let_def set_task_state_def objects_finish
      schedule_expiry_def create_task_def split: coroutine.splits task_state.splits)

lemma no_expiry_handle_wake:
  assumes "no_expiry_handle s"
  shows "no_expiry_handle (schedule_expiry_wake t s)"
proof -
  have "\<And>self. \<forall>x \<in> set ((objects s)[self := (objects s ! self)\<lparr>expiry_task := None\<rparr>]).
            expiry_task x = None"
  proof
    fix self x
    assume "x \<in> set ((objects s)[self := (objects s ! self)\<lparr>expiry_task := None\<rparr>])"
    then have "x \<in> insert ((objects s ! self)\<lparr>expiry_task := None\<rparr>) (set (objects s))"
      using set_update_subset_insert by fastforce
    then show "expiry_task x = None"
      using assms by (auto simp add: no_expiry_handle_def)
  qed
  then show ?thesis
    using assms objects_wake [of t s] unfolding no_expiry_handle_def by metis
qed

text \<open>
  C5 at a concrete input. A member with 3600 seconds of budget starts a session; the
  expiry task of the session runs and sleeps for 3600 seconds; the session is finished.
  \<open>finish\<close> closes the row and removes the session from the cache, and the expiry
  task is still sleeping: it was not cancelled.
\<close>

theorem finish_leaves_expiry_timer:
  "(let s1 = snd (start demo_client 5 demo_member camera_on empty_tracker);
        s2 = schedule_expiry_begin 0 s1;
        s3 = finish 0 s2
    in sessions s1 (2, 7) = Some 0
       \<and> tasks s2 = [\<lparr>coro = schedule_expiry_coro 0, task_state = Sleeping 3600\<rparr>]
       \<and> expiry_task (objects s2 ! 0) = None
       \<and> sessions s3 (2, 7) = None \<and> current_sessions s3 (2, 7) = None
       \<and> tasks s3 = [\<lparr>coro = schedule_expiry_coro 0, task_state = Sleeping 3600\<rparr>]
       \<and> \<not> task_done s3 0)"
proof -
  have k: "guild_id demo_member = 2" "member_id demo_member = 7"
    by (simp_all add: demo_member_def)
  have "start demo_client 5 demo_member camera_on empty_tracker =
      (None, empty_tracker\<lparr>current_sessions := (current_sessions empty_tracker)((2, 7) \<mapsto>
                  create_row demo_client 5 2 7 3 camera_on),
               objects := objects empty_tracker @ [\<lparr>s_guildid = 2, s_userid = 7, expiry_task = None\<rparr>],
               sessions := (sessions empty_tracker)((2, 7) \<mapsto> length (objects empty_tracker)),
               tasks := tasks empty_tracker @ [\<lparr>coro = schedule_expiry_coro (length (objects empty_tracker)),
                                     task_state = Created\<rparr>]\<rparr>)"
    using start_created [of demo_member empty_tracker camera_on 3 demo_client 5]
    by (simp add: k empty_tracker_def camera_on_def)
  then show ?thesis
    by (simp add: Let_def empty_tracker_def schedule_expiry_begin_def set_task_state_def key_def
        finish_def close_study_session_def task_done_def)
qed

section \<open>Time tracker: the scan tick\<close>

lemma scan_members_credit:
  "\<forall>m\<in>set ms. voice m \<noteq> None \<Longrightarrow>
   scan_members cl g iv ms calls
     = (None, calls @ concat (map (credit cl g iv)
          (filter (\<lambda>m. \<not> bot m \<and> member_id m \<notin> user_blacklist cl \<and> member_id m \<notin> ignored_members cl g) ms)))"
proof (induction ms arbitrary: calls)
  case Nil
  then show ?case by simp
next
  case (Cons m ms)
  then obtain v where v: "voice m = Some v" by auto
  from Cons have IH: "\<And>calls. scan_members cl g iv ms calls
     = (None, calls @ concat (map (credit cl g iv)
          (filter (\<lambda>m. \<not> bot m \<and> member_id m \<notin> user_blacklist cl \<and> member_id m \<notin> ignored_members cl g) ms)))"
    by simp
  have c: "credit cl g iv m = [addTime g (member_id m) iv False,
      addCoins g (member_id m)
        (real_of_int (if self_stream v \<or> self_video v
                      then hourly_reward cl g + hourly_live_bonus cl g
                      else hourly_reward cl g) * iv / 3600) False True]"
    by (simp add: credit_def is_live_def v)
  show ?case
  proof (cases "\<not> bot m \<and> member_id m \<notin> user_blacklist cl \<and> member_id m \<notin> ignored_members cl g")
    case True
    then show ?thesis by (simp add: IH v c Let_def del: of_int_add)
  next
    case False
    then show ?thesis by (auto simp add: IH)
  qed
qed

text \<open>
  C8, as amended. A scan tick of a guild always sets the guild's last-scan timestamp to
  \<open>now\<close>. When the guild has no last-scan timestamp, and when the interval since the
  last scan is more than 1200 seconds, nothing is passed to any \<open>Lion\<close>. Otherwise,
  for every member of a tracked voice channel who is not a bot and on neither
  blacklist, in order, the tick adds \<open>interval\<close> seconds of time and
  \<open>(hourly_reward + hourly_live_bonus if streaming or on camera) * interval / 3600\<close>
  coins, both with \<open>flush=False\<close>; members listed in a voice channel have a voice
  state. An interval of 600 seconds at an hourly rate of 6 with no bonus credits 600
  seconds and 1 coin.
\<close>

theorem scan_credits:
  "(last_scan s (g_id guild) = None \<longrightarrow>
      scan cl now guild s = (None, s\<lparr>last_scan := (last_scan s)(g_id guild \<mapsto> now)\<rparr>))
   \<and> (\<forall>l. last_scan s (g_id guild) = Some l \<and> now - l > 1200 \<longrightarrow>
      scan cl now guild s = (None, s\<lparr>last_scan := (last_scan s)(g_id guild \<mapsto> now)\<rparr>))
   \<and> (\<forall>l. last_scan s (g_id guild) = Some l \<and> now - l \<le> 1200
          \<and> (\<forall>c\<in>set (voice_channels guild). \<forall>m\<in>set (vc_members c). voice m \<noteq> None) \<longrightarrow>
      scan cl now guild s
        = (None, s\<lparr>last_scan := (last_scan s)(g_id guild \<mapsto> now),
                    ledger := ledger s @ concat (map (credit cl (g_id guild) (now - l))
                                                  (scanned_members cl guild))\<rparr>))"
proof (intro conjI allI impI)
  assume "last_scan s (g_id guild) = None"
  then show "scan cl now guild s = (None, s\<lparr>last_scan := (last_scan s)(g_id guild \<mapsto> now)\<rparr>)"
    by (simp add: scan_def)
next
  fix l assume "last_scan s (g_id guild) = Some l \<and> now - l > 1200"
  then show "scan cl now guild s = (None, s\<lparr>last_scan := (last_scan s)(g_id guild \<mapsto> now)\<rparr>)"
    by (simp add: scan_def)
next
  fix l
  assume a: "last_scan s (g_id guild) = Some l \<and> now - l \<le> 1200
          \<and> (\<forall>c\<in>set (voice_channels guild). \<forall>m\<in>set (vc_members c). voice m \<noteq> None)"
  let ?ms = "concat (map vc_members
              (filter (\<lambda>c. vc_id c \<notin> untracked_channels cl (g_id guild)) (voice_channels guild)))"
  have "\<forall>m\<in>set ?ms. voice m \<noteq> None" using a by auto
  from scan_members_credit [OF this]
  have "scan_members cl (g_id guild) (now - l) ?ms (ledger s)
      = (None, ledger s @ concat (map (credit cl (g_id guild) (now - l)) (scanned_members cl guild)))"
    by (simp add: scanned_members_def)
  with a show "scan cl now guild s
        = (None, s\<lparr>last_scan := (last_scan s)(g_id guild \<mapsto> now),
                    ledger := ledger s @ concat (map (credit cl (g_id guild) (now - l))
                                                  (scanned_members cl guild))\<rparr>)"
    by (simp add: scan_def Let_def)
qed

lemma demo_scanned: "scanned_members demo_client demo_guild = [demo_member]"
  by (simp add: scanned_members_def demo_client_def demo_guild_def demo_member_def)

theorem scan_credits_witness:
  "last_scan \<lparr>last_scan = [2 \<mapsto> 0], ledger = []\<rparr> (g_id demo_guild) = Some 0
   \<and> (600::real) - 0 \<le> 1200
   \<and> list_all (\<lambda>c. list_all (\<lambda>m. voice m \<noteq> None) (vc_members c)) (voice_channels demo_guild)
   \<and> scan demo_client 600 demo_guild \<lparr>last_scan = [2 \<mapsto> 0], ledger = []\<rparr>
       = (None, \<lparr>last_scan = [2 \<mapsto> 600],
                 ledger = [addTime 2 7 600 False, addCoins 2 7 1 False True]\<rparr>)
   \<and> last_scan \<lparr>last_scan = Map.empty, ledger = []\<rparr> (g_id demo_guild) = None
   \<and> scan demo_client 600 demo_guild \<lparr>last_scan = Map.empty, ledger = []\<rparr>
       = (None, \<lparr>last_scan = [2 \<mapsto> 600], ledger = []\<rparr>)
   \<and> last_scan \<lparr>last_scan = [2 \<mapsto> 0], ledger = []\<rparr> (g_id demo_guild) = Some 0
   \<and> (1201::real) - 0 > 1200
   \<and> scan demo_client 1201 demo_guild \<lparr>last_scan = [2 \<mapsto> 0], ledger = []\<rparr>
       = (None, \<lparr>last_scan = [2 \<mapsto> 1201], ledger = []\<rparr>)"
proof -
  let ?s = "\<lparr>last_scan = [2 \<mapsto> (0::real)], ledger = []\<rparr>"
  let ?e = "\<lparr>last_scan = Map.empty, ledger = []\<rparr>"
  have g: "g_id demo_guild = 2" by (simp add: demo_guild_def)
  have h1: "last_scan ?s (g_id demo_guild) = Some 0" by (simp add: g)
  have h2: "\<forall>c\<in>set (voice_channels demo_guild). \<forall>m\<in>set (vc_members c). voice m \<noteq> None"
    by (simp add: demo_guild_def demo_member_def)
  have h3: "last_scan ?e (g_id demo_guild) = None" by simp
  have c: "credit demo_client 2 600 demo_member = [addTime 2 7 600 False, addCoins 2 7 1 False True]"
    by (simp add: credit_def demo_client_def demo_member_def is_live_def)
  have r1: "scan demo_client 600 demo_guild ?s
       = (None, \<lparr>last_scan = [2 \<mapsto> 600], ledger = [addTime 2 7 600 False, addCoins 2 7 1 False True]\<rparr>)"
    using scan_credits [of ?s demo_guild demo_client 600] h1 h2
    by (simp add: g demo_scanned c)
  have r2: "scan demo_client 600 demo_guild ?e = (None, \<lparr>last_scan = [2 \<mapsto> 600], ledger = []\<rparr>)"
    using scan_credits [of ?e demo_guild demo_client 600] h3 by (simp add: g)
  have r3: "scan demo_client 1201 demo_guild ?s = (None, \<lparr>last_scan = [2 \<mapsto> 1201], ledger = []\<rparr>)"
    using scan_credits [of ?s demo_guild demo_client 1201] h1 by (simp add: g)
  have h2': "list_all (\<lambda>c. list_all (\<lambda>m. voice m \<noteq> None) (vc_members c)) (voice_channels demo_guild)"
    by (simp add: demo_guild_def demo_member_def)
  show ?thesis using h1 h2' h3 r1 r2 r3 by simp
qed

text \<open>
  C8 as the specification states it has the example of an interval of 1800 seconds at an
  hourly rate of 6 crediting 1800 seconds and 3 coins. 1800 seconds is above the ceiling of
  1200 seconds: the tick credits nothing.
\<close>

theorem scan_interval_1800_counterexample:
  "scan demo_client 1800 demo_guild \<lparr>last_scan = [2 \<mapsto> 0], ledger = []\<rparr>
     = (None, \<lparr>last_scan = [2 \<mapsto> 1800], ledger = []\<rparr>)
   \<and> hourly_reward demo_client 2 = 6
   \<and> scanned_members demo_client demo_guild = [demo_member] \<and> \<not> is_live demo_member
   \<and> ledger (snd (scan demo_client 1800 demo_guild \<lparr>last_scan = [2 \<mapsto> 0], ledger = []\<rparr>))
       \<noteq> [addTime 2 7 1800 False, addCoins 2 7 3 False True]"
proof -
  have g: "g_id demo_guild = 2" by (simp add: demo_guild_def)
  have r: "scan demo_client 1800 demo_guild \<lparr>last_scan = [2 \<mapsto> 0], ledger = []\<rparr>
     = (None, \<lparr>last_scan = [2 \<mapsto> 1800], ledger = []\<rparr>)"
    by (simp add: scan_def g)
  have l: "\<not> is_live demo_member" by (simp add: is_live_def demo_member_def)
  have h: "hourly_reward demo_client 2 = 6" by (simp add: demo_client_def)
  show ?thesis by (simp add: r l h demo_scanned)
qed

section \<open>Commands: the exclusive interaction guard\<close>

lemma enter_fields:
  "user_locks (ensure_exclusive_enter ctx s) = (user_locks s)(author_id (contexts s ! ctx) \<mapsto> ctx)"
  "cancelled_tasks (ensure_exclusive_enter ctx s)
     = cancelled_tasks s \<union> superseded_tasks s (author_id (contexts s ! ctx))"
  "contexts (ensure_exclusive_enter ctx s) = contexts s"
  by (simp_all add: ensure_exclusive_enter_def superseded_tasks_def Let_def split: option.splits)

lemma exit_fields:
  "user_locks (ensure_exclusive_exit ctx s)
     = (case user_locks s (author_id (contexts s ! ctx)) of
          Some new_ctx \<Rightarrow>
            (if msg_id (contexts s ! new_ctx) = msg_id (contexts s ! ctx)
             then (user_locks s)(author_id (contexts s ! ctx) := None)
             else user_locks s)
        | None \<Rightarrow> user_locks s)"
  "cancelled_tasks (ensure_exclusive_exit ctx s) = cancelled_tasks s"
  "contexts (ensure_exclusive_exit ctx s) = contexts s"
  by (simp_all add: ensure_exclusive_exit_def Let_def split: option.splits)

text \<open>
  C9. The guard maps a member to at most one context. Entering a flow cancels every
  task of the context registered before for the author (the tasks that context holds
  at that moment) and registers the entering context. Leaving a flow removes the
  author's entry when the registered context has the message id of the leaving one,
  and changes nothing otherwise: after a flow was superseded by a newer one with
  another message, its tasks are cancelled, and its completion leaves the newer flow
  registered.
\<close>

theorem ensure_exclusive_guard:
  "user_locks (ensure_exclusive_enter ctx s) = (user_locks s)(author_id (contexts s ! ctx) \<mapsto> ctx)
   \<and> cancelled_tasks (ensure_exclusive_enter ctx s)
       = cancelled_tasks s \<union> superseded_tasks s (author_id (contexts s ! ctx))
   \<and> contexts (ensure_exclusive_enter ctx s) = contexts s
   \<and> (\<forall>new_ctx. user_locks s (author_id (contexts s ! ctx)) = Some new_ctx
          \<and> msg_id (contexts s ! new_ctx) = msg_id (contexts s ! ctx) \<longrightarrow>
        ensure_exclusive_exit ctx s = s\<lparr>user_locks := (user_locks s)(author_id (contexts s ! ctx) := None)\<rparr>)
   \<and> (\<forall>new_ctx. user_locks s (author_id (contexts s ! ctx)) = Some new_ctx
          \<and> msg_id (contexts s ! new_ctx) \<noteq> msg_id (contexts s ! ctx) \<longrightarrow>
        ensure_exclusive_exit ctx s = s)
   \<and> (user_locks s (author_id (contexts s ! ctx)) = None \<longrightarrow> ensure_exclusive_exit ctx s = s)
   \<and> (\<forall>newer. author_id (contexts s ! newer) = author_id (contexts s ! ctx)
          \<and> msg_id (contexts s ! newer) \<noteq> msg_id (contexts s ! ctx) \<longrightarrow>
        user_locks (ensure_exclusive_exit ctx (ensure_exclusive_enter newer (ensure_exclusive_enter ctx s)))
            (author_id (contexts s ! ctx)) = Some newer
        \<and> set (ctx_tasks (contexts s ! ctx))
            \<subseteq> cancelled_tasks (ensure_exclusive_exit ctx (ensure_exclusive_enter newer (ensure_exclusive_enter ctx s))))"
proof (intro conjI allI impI)
  fix newer
  assume a: "author_id (contexts s ! newer) = author_id (contexts s ! ctx)
          \<and> msg_id (contexts s ! newer) \<noteq> msg_id (contexts s ! ctx)"
  let ?s1 = "ensure_exclusive_enter ctx s"
  let ?s2 = "ensure_exclusive_enter newer ?s1"
  have l2: "user_locks ?s2 (author_id (contexts s ! ctx)) = Some newer"
    using a by (simp add: enter_fields)
  show "user_locks (ensure_exclusive_exit ctx ?s2) (author_id (contexts s ! ctx)) = Some newer"
    using a l2 by (simp add: exit_fields enter_fields)
  have "superseded_tasks ?s1 (author_id (contexts ?s1 ! newer)) = set (ctx_tasks (contexts s ! ctx))"
    using a by (simp add: superseded_tasks_def enter_fields)
  then show "set (ctx_tasks (contexts s ! ctx)) \<subseteq> cancelled_tasks (ensure_exclusive_exit ctx ?s2)"
    by (auto simp add: exit_fields enter_fields)
qed (simp_all add: enter_fields ensure_exclusive_exit_def)

theorem ensure_exclusive_guard_witness:
  "author_id (contexts demo_exclusive ! 1) = author_id (contexts demo_exclusive ! 0)
   \<and> msg_id (contexts demo_exclusive ! 1) \<noteq> msg_id (contexts demo_exclusive ! 0)
   \<and> user_locks (ensure_exclusive_enter 0 demo_exclusive) = [7 \<mapsto> 0]
   \<and> user_locks (ensure_exclusive_exit 0 (ensure_exclusive_enter 1 (ensure_exclusive_enter 0 demo_exclusive))) 7
       = Some 1
   \<and> {11, 12} \<subseteq> cancelled_tasks
         (ensure_exclusive_exit 0 (ensure_exclusive_enter 1 (ensure_exclusive_enter 0 demo_exclusive)))
   \<and> user_locks (ensure_exclusive_enter 0 demo_exclusive) 7 = Some 0
   \<and> ensure_exclusive_exit 0 (ensure_exclusive_enter 0 demo_exclusive)
       = (ensure_exclusive_enter 0 demo_exclusive)\<lparr>user_locks := Map.empty\<rparr>"
proof -
  have c: "author_id (contexts demo_exclusive ! 1) = 7" "author_id (contexts demo_exclusive ! 0) = 7"
      "msg_id (contexts demo_exclusive ! 1) = 101" "msg_id (contexts demo_exclusive ! 0) = 100"
      "ctx_tasks (contexts demo_exclusive ! 0) = [11, 12]" "user_locks demo_exclusive = Map.empty"
    by (simp_all add: demo_exclusive_def)
  let ?s1 = "ensure_exclusive_enter 0 demo_exclusive"
  have e: "user_locks ?s1 = [7 \<mapsto> 0]" "contexts ?s1 = contexts demo_exclusive"
    using ensure_exclusive_guard [of 0 demo_exclusive] c by simp_all
  have x: "ensure_exclusive_exit 0 ?s1 = ?s1\<lparr>user_locks := Map.empty\<rparr>"
    using ensure_exclusive_guard [of 0 ?s1] e c by simp
  have st: "user_locks (ensure_exclusive_exit 0 (ensure_exclusive_enter 1 ?s1)) 7 = Some 1
      \<and> {11, 12} \<subseteq> cancelled_tasks (ensure_exclusive_exit 0 (ensure_exclusive_enter 1 ?s1))"
    using ensure_exclusive_guard [of 0 demo_exclusive] c by simp
  show ?thesis using c e x st by simp
qed

section \<open>Commands: the streak calculation\<close>

lemma streak_broken_fields:
  "loop_i (streak_broken s) = loop_i s" "date (streak_broken s) = date s"
  by (simp_all add: streak_broken_def)

lemma streak_step_progress:
  assumes "loop_i s < length history"
  shows "(loop_i (streak_step history s) = loop_i s + 1 \<and> date (streak_step history s) = date s
           \<and> (\<not> attended (history ! loop_i s) \<or> h_start_at (history ! loop_i s) > date s))
       \<or> (loop_i (streak_step history s) = loop_i s
           \<and> date (streak_step history s) = date s - daydiff
           \<and> attended (history ! loop_i s) \<and> h_start_at (history ! loop_i s) \<le> date s)"
  by (auto simp add: streak_step_def Let_def streak_broken_fields)

lemma streak_step_decreases:
  assumes "loop_i s < length history"
  shows "(streak_measure history (streak_step history s), streak_measure history s)
           \<in> less_than <*lex*> less_than"
proof -
  from streak_step_progress [OF assms]
  consider (advance) "loop_i (streak_step history s) = loop_i s + 1"
    | (retry) "loop_i (streak_step history s) = loop_i s"
        "date (streak_step history s) = date s - daydiff"
        "attended (history ! loop_i s)" "h_start_at (history ! loop_i s) \<le> date s"
    by blast
  then show ?thesis
  proof cases
    case advance
    with assms have "fst (streak_measure history (streak_step history s))
        < fst (streak_measure history s)"
      by (simp add: streak_measure_def)
    then show ?thesis
      by (cases "streak_measure history (streak_step history s)";
          cases "streak_measure history s") simp
  next
    case retry
    with assms have "fst (streak_measure history (streak_step history s))
        = fst (streak_measure history s)"
      by (simp add: streak_measure_def)
    moreover from retry assms have "snd (streak_measure history (streak_step history s))
        < snd (streak_measure history s)"
      by (simp add: streak_measure_def daydiff_def)
    ultimately show ?thesis
      by (cases "streak_measure history (streak_step history s)";
          cases "streak_measure history s") simp
  qed
qed

lemma streak_loop_terminates: "\<exists>s'. streak_loop history s = Some s'"
  unfolding streak_loop_def
proof (rule wf_while_option_Some [where P = "\<lambda>s. True"])
  have "{(t, s). (True \<and> loop_i s < length history) \<and> t = streak_step history s}
          \<subseteq> inv_image (less_than <*lex*> less_than) (streak_measure history)"
    using streak_step_decreases by (auto simp add: inv_image_def)
  moreover have "wf (inv_image (less_than <*lex*> less_than) (streak_measure history))"
    by (intro wf_inv_image wf_lex_prod wf_less_than)
  ultimately show "wf {(t, s). (True \<and> loop_i s < length history) \<and> t = streak_step history s}"
    by (rule wf_subset [rotated])
qed simp_all

text \<open>
  C10. Every iteration of the streak loop either advances the index by one and leaves
  the cursor, or leaves the index and moves the cursor one day back, which happens
  only while the start of the row at the index is not above the cursor; the pair of
  the rows left and the distance of the cursor above that row decreases
  lexicographically. So the loop ends for every history and every cursor, with the
  index at the end of the history, and the calculation yields a current and a maximum
  streak.
\<close>

theorem streak_loop_total:
  "(\<forall>s. loop_i s < length history \<longrightarrow>
      (loop_i (streak_step history s) = loop_i s + 1 \<and> date (streak_step history s) = date s)
      \<or> (loop_i (streak_step history s) = loop_i s
          \<and> date (streak_step history s) = date s - daydiff
          \<and> h_start_at (history ! loop_i s) \<le> date s))
   \<and> (\<forall>s. loop_i s < length history \<longrightarrow>
        (streak_measure history (streak_step history s), streak_measure history s)
           \<in> less_than <*lex*> less_than)
   \<and> (\<exists>s'. streak_loop history (streak_init date0) = Some s' \<and> \<not> loop_i s' < length history)
   \<and> (\<exists>current_streak1 max_streak1.
         calculate_streak history date0 = Some (current_streak1, max_streak1))"
proof -
  have progress: "\<forall>s. loop_i s < length history \<longrightarrow>
      (loop_i (streak_step history s) = loop_i s + 1 \<and> date (streak_step history s) = date s)
      \<or> (loop_i (streak_step history s) = loop_i s
          \<and> date (streak_step history s) = date s - daydiff
          \<and> h_start_at (history ! loop_i s) \<le> date s)"
    using streak_step_progress by blast
  have decreases: "\<forall>s. loop_i s < length history \<longrightarrow>
        (streak_measure history (streak_step history s), streak_measure history s)
           \<in> less_than <*lex*> less_than"
    using streak_step_decreases by blast
  obtain s' where s': "streak_loop history (streak_init date0) = Some s'"
    using streak_loop_terminates by blast
  then have stop: "\<not> loop_i s' < length history"
    unfolding streak_loop_def by (rule while_option_stop)
  have exits: "\<exists>s'. streak_loop history (streak_init date0) = Some s' \<and> \<not> loop_i s' < length history"
    using s' stop by blast
  have result: "\<exists>current_streak1 max_streak1.
         calculate_streak history date0 = Some (current_streak1, max_streak1)"
    using s' by (cases "streak_exit s'") (simp add: calculate_streak_def)
  show ?thesis using progress decreases exits result by blast
qed

lemma demo_streak: "calculate_streak demo_history 864000000000 = Some (1, 1)"
  by code_simp

theorem streak_loop_total_witness:
  "loop_i (streak_init 864000000000) < length demo_history
   \<and> (streak_measure demo_history (streak_step demo_history (streak_init 864000000000)),
       streak_measure demo_history (streak_init 864000000000)) \<in> less_than <*lex*> less_than
   \<and> loop_i (streak_step demo_history (streak_init 864000000000)) = 1
   \<and> calculate_streak demo_history 864000000000 = Some (1, 1)"
proof -
  have h: "loop_i (streak_init 864000000000) < length demo_history"
    by (simp add: streak_init_def demo_history_def)
  have d: "date (streak_init 864000000000) < h_start_at (demo_history ! loop_i (streak_init 864000000000))"
    by (simp add: streak_init_def demo_history_def)
  from streak_loop_total [of demo_history 864000000000] h
  have m: "(streak_measure demo_history (streak_step demo_history (streak_init 864000000000)),
       streak_measure demo_history (streak_init 864000000000)) \<in> less_than <*lex*> less_than"
    and p: "(loop_i (streak_step demo_history (streak_init 864000000000)) = loop_i (streak_init 864000000000) + 1
           \<and> date (streak_step demo_history (streak_init 864000000000)) = date (streak_init 864000000000))
      \<or> (loop_i (streak_step demo_history (streak_init 864000000000)) = loop_i (streak_init 864000000000)
          \<and> date (streak_step demo_history (streak_init 864000000000)) = date (streak_init 864000000000) - daydiff
          \<and> h_start_at (demo_history ! loop_i (streak_init 864000000000)) \<le> date (streak_init 864000000000))"
    by blast+
  from p d have "loop_i (streak_step demo_history (streak_init 864000000000)) = 1"
    by (auto simp add: streak_init_def)
  with h m demo_streak show ?thesis by simp
qed

section \<open>Commands: booking\<close>

lemma emit_fields:
  "coins (emit es s) = coins s"
  "accountability_members (emit es s) = accountability_members s"
  "accountability_rooms (emit es s) = accountability_rooms s"
  "cache (emit es s) = cache s"
  "next_slotid (emit es s) = next_slotid s"
  "trace (emit es s) = trace s @ es"
  by (simp_all add: emit_def)






lemma book_rows_trace:
  "\<exists>es. trace (book_rows g author price to_book s) = trace s @ es
        \<and> insert_member_rows \<in> set es \<and> (\<forall>c. alion_addCoins c \<notin> set es)
        \<and> acquire_room_lock \<notin> set es"
  by (simp add: book_rows_def Let_def emit_fields)



lemma slot_update_status_fields:
  "coins (snd (slot_update_status dc s)) = coins s"
  "accountability_members (snd (slot_update_status dc s)) = accountability_members s"
  "accountability_rooms (snd (slot_update_status dc s)) = accountability_rooms s"
  "trace (snd (slot_update_status dc s)) = trace s @ [update_status]"
  by (simp_all add: slot_update_status_def emit_fields)



lemma book_activation_trace:
  "\<exists>es. trace (snd (book_activation dc g author to_book s)) = trace s @ es
        \<and> (\<forall>c. alion_addCoins c \<notin> set es) \<and> acquire_room_lock \<notin> set es"
  by (auto simp add: book_activation_def Let_def emit_fields slot_update_status_fields
      split: option.splits prod.splits)














section \<open>Commands: cancelling\<close>

lemma cancel_upcoming_fields:
  "coins (snd (cancel_upcoming dc author slotids rows s)) = coins s"
  "accountability_members (snd (cancel_upcoming dc author slotids rows s)) = accountability_members s"
  "accountability_rooms (snd (cancel_upcoming dc author slotids rows s)) = accountability_rooms s"
  by (induction rows)
     (simp_all add: Let_def emit_fields slot_update_status_fields split: option.splits)

lemma cancel_upcoming_ok:
  "\<not> update_status_raises dc \<Longrightarrow> fst (cancel_upcoming dc author slotids rows s)"
  by (induction rows)
     (simp_all add: Let_def slot_update_status_def split: option.splits)

lemma cancel_branch_error_reply:
  "cancel_branch dc author now joined_rows indexes s = (error_reply e, s') \<Longrightarrow> s' = s"
  by (auto simp add: cancel_branch_def Let_def split: if_splits prod.splits)

lemma cancel_branch_running:
  assumes "list_ex (\<lambda>row. j_start_at row < now) (selection joined_rows indexes)"
  shows "cancel_branch dc author now joined_rows indexes s
           = (error_reply Cant_cancel_a_running_session, s)"
proof -
  from assms have "selection joined_rows indexes \<noteq> []" by auto
  with assms show ?thesis by (simp add: cancel_branch_def Let_def)
qed

lemma cancel_branch_proceeds:
  assumes run: "cancel_branch dc author now joined_rows indexes s = (r, s')"
    and ne: "selection joined_rows indexes \<noteq> []"
    and fut: "\<not> list_ex (\<lambda>row. j_start_at row < now) (selection joined_rows indexes)"
  shows "accountability_members s'
           = remaining_rows author (selection joined_rows indexes) (accountability_members s)"
    and "accountability_rooms s' = accountability_rooms s"
    and "r = completed \<or> r = raised"
    and "r = completed \<Longrightarrow>
           coins s' = (coins s)(author := coins s author
              + sum_list (map paid (cancelled_rows author (selection joined_rows indexes)
                                      (accountability_members s))))"
    and "r = raised \<Longrightarrow> coins s' = coins s"
    and "\<not> update_status_raises dc \<Longrightarrow> r = completed"
proof -
  let ?tc = "selection joined_rows indexes"
  let ?slotids = "map j_slotid ?tc"
  let ?s2 = "emit [delete_member_rows]
               ((emit [acquire_room_lock] s)\<lparr>accountability_members :=
                   remaining_rows author ?tc (accountability_members (emit [acquire_room_lock] s))\<rparr>)"
  let ?u = "cancel_upcoming dc author ?slotids ?tc ?s2"
  let ?s4 = "emit [release_room_lock] (snd ?u)"
  let ?refund = "sum_list (map paid (cancelled_rows author ?tc (accountability_members s)))"
  have eq: "(r, s') = (if fst ?u
       then (completed, emit [alion_addCoins ?refund]
                          (?s4\<lparr>coins := (coins ?s4)(author := coins ?s4 author + ?refund)\<rparr>))
       else (raised, ?s4))"
    using run [symmetric] ne fut
    unfolding cancel_branch_def remaining_rows_def cancelled_rows_def Let_def split_def
    by (simp add: emit_def)
  have f: "coins ?s4 = coins s"
      "accountability_members ?s4 = remaining_rows author ?tc (accountability_members s)"
      "accountability_rooms ?s4 = accountability_rooms s"
    by (simp_all add: emit_fields cancel_upcoming_fields)
  show "accountability_members s' = remaining_rows author ?tc (accountability_members s)"
    using eq f by (cases "fst ?u") (simp_all add: emit_fields)
  show "accountability_rooms s' = accountability_rooms s"
    using eq f by (cases "fst ?u") (simp_all add: emit_fields)
  show "r = completed \<or> r = raised"
    using eq by (cases "fst ?u") simp_all
  show "coins s' = (coins s)(author := coins s author + ?refund)" if "r = completed"
    using eq f that by (cases "fst ?u") (simp_all add: emit_fields)
  show "coins s' = coins s" if "r = raised"
    using eq f that by (cases "fst ?u") (simp_all add: emit_fields)
  show "r = completed" if "\<not> update_status_raises dc"
    using eq cancel_upcoming_ok [OF that, of author ?slotids ?tc ?s2] by simp
qed

text \<open>
  What the cancel branch does. Let \<open>to_cancel\<close> be the selected rows. If one of them
  starts before \<open>now\<close>, the command replies "You can't cancel a running session!"
  and changes nothing. An error reply never changes anything. Otherwise, for a selection
  that is not empty, exactly the reservations of the member for the selected slot ids
  are deleted, and all other reservations and the slots stay as they are. The command
  then completes or ends with an exception. When it completes (it does when
  \<open>update_status\<close> does not raise) the member's coins have grown by the sum of
  \<open>paid\<close> of the deleted rows; no price enters the refund. When it ends with an
  exception, the member's coins are as before.
\<close>

lemma cancel_branch_refunds:
  assumes run: "cancel_branch dc author now joined_rows indexes s = (r, s')"
    and to_cancel: "to_cancel = selection joined_rows indexes"
  shows "(list_ex (\<lambda>row. j_start_at row < now) to_cancel \<longrightarrow>
            r = error_reply Cant_cancel_a_running_session \<and> s' = s)
     \<and> (\<forall>e. r = error_reply e \<longrightarrow> s' = s)
     \<and> (to_cancel \<noteq> [] \<and> \<not> list_ex (\<lambda>row. j_start_at row < now) to_cancel \<longrightarrow>
          accountability_members s' = remaining_rows author to_cancel (accountability_members s)
          \<and> accountability_rooms s' = accountability_rooms s
          \<and> (r = completed \<longrightarrow>
                coins s' = (coins s)(author := coins s author
                   + sum_list (map paid (cancelled_rows author to_cancel (accountability_members s)))))
          \<and> (\<not> update_status_raises dc \<longrightarrow> r = completed)
          \<and> (r = completed \<or> r = raised)
          \<and> (r = raised \<longrightarrow> coins s' = coins s))"
proof (intro conjI impI allI)
  assume "list_ex (\<lambda>row. j_start_at row < now) to_cancel"
  then have "cancel_branch dc author now joined_rows indexes s
           = (error_reply Cant_cancel_a_running_session, s)"
    unfolding to_cancel by (rule cancel_branch_running)
  with run show "r = error_reply Cant_cancel_a_running_session" "s' = s" by simp_all
next
  fix e assume "r = error_reply e"
  with run show "s' = s" using cancel_branch_error_reply by blast
next
  assume a: "to_cancel \<noteq> [] \<and> \<not> list_ex (\<lambda>row. j_start_at row < now) to_cancel"
  then have ne: "selection joined_rows indexes \<noteq> []"
    and fut: "\<not> list_ex (\<lambda>row. j_start_at row < now) (selection joined_rows indexes)"
    unfolding to_cancel by simp_all
  note facts = cancel_branch_proceeds [OF run ne fut, folded to_cancel]
  show "accountability_members s' = remaining_rows author to_cancel (accountability_members s)"
    by (rule facts(1))
  show "accountability_rooms s' = accountability_rooms s"
    by (rule facts(2))
  show "coins s' = (coins s)(author := coins s author
                   + sum_list (map paid (cancelled_rows author to_cancel (accountability_members s))))"
    if "r = completed"
    using that by (rule facts(4))
  show "r = completed" if "\<not> update_status_raises dc"
    using that by (rule facts(6))
  show "r = completed \<or> r = raised"
    by (rule facts(3))
  show "coins s' = coins s" if "r = raised"
    using that by (rule facts(5))
qed

lemma cancel_branch_refunds_demo:
  "selection demo_joined_rows [0] = [\<lparr>j_slotid = 5, j_guildid = 2, j_start_at = 7200000000\<rparr>]
   \<and> \<not> list_ex (\<lambda>row. j_start_at row < 1000000) (selection demo_joined_rows [0])
   \<and> \<not> update_status_raises demo_calls
   \<and> (\<exists>s'. cancel_branch demo_calls 7 1000000 demo_joined_rows [0] booked_accountability = (completed, s')
         \<and> accountability_members s'
             = [\<lparr>m_slotid = 6, m_userid = 7, paid = 12\<rparr>, \<lparr>m_slotid = 5, m_userid = 8, paid = 10\<rparr>]
         \<and> coins s' 7 = 60
         \<and> accountability_rooms s' = accountability_rooms booked_accountability)
   \<and> list_ex (\<lambda>row. j_start_at row < 8000000000) (selection demo_joined_rows [0])
   \<and> cancel_branch demo_calls 7 8000000000 demo_joined_rows [0] booked_accountability
       = (error_reply Cant_cancel_a_running_session, booked_accountability)"
proof -
  let ?tc = "[\<lparr>j_slotid = 5, j_guildid = 2, j_start_at = 7200000000\<rparr>]"
  have sel: "selection demo_joined_rows [0] = ?tc"
    by (simp add: selection_def demo_joined_rows_def)
  have fut: "\<not> list_ex (\<lambda>row. j_start_at row < 1000000) (selection demo_joined_rows [0])"
    by (simp add: sel)
  have past: "list_ex (\<lambda>row. j_start_at row < 8000000000) (selection demo_joined_rows [0])"
    by (simp add: sel)
  have calls: "\<not> update_status_raises demo_calls"
    by (simp add: demo_calls_def)
  have rem: "remaining_rows 7 ?tc (accountability_members booked_accountability)
      = [\<lparr>m_slotid = 6, m_userid = 7, paid = 12\<rparr>, \<lparr>m_slotid = 5, m_userid = 8, paid = 10\<rparr>]"
    by (simp add: remaining_rows_def booked_accountability_def)
  have can: "sum_list (map paid (cancelled_rows 7 ?tc (accountability_members booked_accountability))) = 10"
    by (simp add: cancelled_rows_def booked_accountability_def)
  have c: "coins booked_accountability 7 = 50"
    by (simp add: booked_accountability_def)
  obtain r s' where run: "cancel_branch demo_calls 7 1000000 demo_joined_rows [0] booked_accountability = (r, s')"
    by (cases "cancel_branch demo_calls 7 1000000 demo_joined_rows [0] booked_accountability")
  from cancel_branch_refunds [OF run sel [symmetric]] fut calls
  have "r = completed"
    "accountability_members s' = remaining_rows 7 ?tc (accountability_members booked_accountability)"
    "accountability_rooms s' = accountability_rooms booked_accountability"
    "coins s' = (coins booked_accountability)(7 := coins booked_accountability 7
        + sum_list (map paid (cancelled_rows 7 ?tc (accountability_members booked_accountability))))"
    by (simp_all add: sel)
  with run rem can c
  have ok: "\<exists>s'. cancel_branch demo_calls 7 1000000 demo_joined_rows [0] booked_accountability = (completed, s')
         \<and> accountability_members s'
             = [\<lparr>m_slotid = 6, m_userid = 7, paid = 12\<rparr>, \<lparr>m_slotid = 5, m_userid = 8, paid = 10\<rparr>]
         \<and> coins s' 7 = 60
         \<and> accountability_rooms s' = accountability_rooms booked_accountability"
    by simp
  obtain r2 s2 where run2: "cancel_branch demo_calls 7 8000000000 demo_joined_rows [0] booked_accountability = (r2, s2)"
    by (cases "cancel_branch demo_calls 7 8000000000 demo_joined_rows [0] booked_accountability")
  from cancel_branch_refunds [OF run2 sel [symmetric]] past
  have "r2 = error_reply Cant_cancel_a_running_session \<and> s2 = booked_accountability"
    by (simp add: sel)
  with run2 have bad: "cancel_branch demo_calls 7 8000000000 demo_joined_rows [0] booked_accountability
       = (error_reply Cant_cancel_a_running_session, booked_accountability)"
    by simp
  show ?thesis using sel fut past calls ok bad by simp
qed

text \<open>
  C4 at a concrete input. Member 7 has paid 10 for slot 5, the upcoming slot of the
  guild, which is open, and cancels it before its start; \<open>slot.update_status()\<close>
  raises. The reservation is deleted, the member is removed from the slot, the lock is
  released, and the command ends with the exception before \<open>addCoins\<close>: the member
  still has 50 coins, and the 10 paid are not refunded.
\<close>

theorem cancel_branch_loses_refund:
  "fst (cancel_branch failing_calls 7 1000000 demo_joined_rows [0] booked_accountability) = raised
   \<and> cancelled_rows 7 (selection demo_joined_rows [0]) (accountability_members booked_accountability)
       = [\<lparr>m_slotid = 5, m_userid = 7, paid = 10\<rparr>]
   \<and> accountability_members
         (snd (cancel_branch failing_calls 7 1000000 demo_joined_rows [0] booked_accountability))
       = [\<lparr>m_slotid = 6, m_userid = 7, paid = 12\<rparr>, \<lparr>m_slotid = 5, m_userid = 8, paid = 10\<rparr>]
   \<and> coins booked_accountability 7 = 50
   \<and> coins (snd (cancel_branch failing_calls 7 1000000 demo_joined_rows [0] booked_accountability)) 7
       = 50
   \<and> trace (snd (cancel_branch failing_calls 7 1000000 demo_joined_rows [0] booked_accountability))
       = [acquire_room_lock, delete_member_rows, pop_slot_member, set_permissions, update_status,
          release_room_lock]"
proof -
  have r: "fst (cancel_branch failing_calls 7 1000000 demo_joined_rows [0] booked_accountability) = raised"
    by code_simp
  have d: "cancelled_rows 7 (selection demo_joined_rows [0]) (accountability_members booked_accountability)
       = [\<lparr>m_slotid = 5, m_userid = 7, paid = 10\<rparr>]"
    by code_simp
  have m: "accountability_members
         (snd (cancel_branch failing_calls 7 1000000 demo_joined_rows [0] booked_accountability))
       = [\<lparr>m_slotid = 6, m_userid = 7, paid = 12\<rparr>, \<lparr>m_slotid = 5, m_userid = 8, paid = 10\<rparr>]"
    by code_simp
  have c0: "coins booked_accountability 7 = 50"
    by (simp add: booked_accountability_def)
  have c1: "coins (snd (cancel_branch failing_calls 7 1000000 demo_joined_rows [0] booked_accountability)) 7
       = 50"
    by code_simp
  have t: "trace (snd (cancel_branch failing_calls 7 1000000 demo_joined_rows [0] booked_accountability))
       = [acquire_room_lock, delete_member_rows, pop_slot_member, set_permissions, update_status,
          release_room_lock]"
    by code_simp
  show ?thesis using r d m c0 c1 t by simp
qed

section \<open>Commands: the room lock\<close>

text \<open>
  The book branch never enters \<open>room_lock\<close>.
\<close>

lemma book_branch_never_locks:
  "acquire_room_lock \<notin> set (drop (length (trace s))
      (trace (snd (book_branch dc price g author now times_shown indexes s))))"
proof -
  let ?tb = "selection times_shown indexes"
  let ?cost = "int (length ?tb) * price"
  let ?s2 = "book_rows g author price ?tb s"
  let ?s3 = "snd (book_activation dc g author ?tb ?s2)"
  let ?s4 = "emit [alion_addCoins (- ?cost)] (?s3\<lparr>coins := (coins ?s3)(author := coins ?s3 author - ?cost)\<rparr>)"
  let ?s' = "snd (book_branch dc price g author now times_shown indexes s)"
  have cases: "?s' = s \<or> ?s' = ?s3 \<or> ?s' = ?s4"
    by (auto simp add: book_branch_def Let_def split: if_splits prod.splits bool.splits)
  obtain es1 where es1: "trace ?s2 = trace s @ es1" "acquire_room_lock \<notin> set es1"
    using book_rows_trace [of g author price ?tb s] by blast
  obtain es2 where es2: "trace ?s3 = trace ?s2 @ es2" "acquire_room_lock \<notin> set es2"
    using book_activation_trace [of dc g author ?tb ?s2] by blast
  have "trace ?s4 = trace s @ es1 @ es2 @ [alion_addCoins (- ?cost)]"
    by (simp add: emit_fields es1 es2)
  with cases es1 es2 show ?thesis by auto
qed

text \<open>
  C1 at a concrete input. A member books the start time of the upcoming slot of the
  guild, which has no data yet: the book branch looks up and creates the slot row,
  refreshes and opens the slot and writes the channel and message to the slot row, all
  outside \<open>room_lock\<close>. The cancel branch does its deletion and its mutation of the
  member set inside the lock.
\<close>

theorem book_branch_activation_unlocked:
  "trace (snd (book_branch demo_calls 10 2 7 1000000 [7200000000] [0] upcoming_accountability))
     = [fetch_slot_rows, insert_slot_rows, insert_member_rows, slot_refresh, slot_open,
        update_slot_row, update_status, alion_addCoins (- 10)]
   \<and> \<not> guarded False
         (trace (snd (book_branch demo_calls 10 2 7 1000000 [7200000000] [0] upcoming_accountability)))
   \<and> trace (snd (cancel_branch demo_calls 7 1000000 demo_joined_rows [0] booked_accountability))
     = [acquire_room_lock, delete_member_rows, pop_slot_member, set_permissions, update_status,
        release_room_lock, alion_addCoins 10]
   \<and> guarded False
         (trace (snd (cancel_branch demo_calls 7 1000000 demo_joined_rows [0] booked_accountability)))"
proof -
  have b: "trace (snd (book_branch demo_calls 10 2 7 1000000 [7200000000] [0] upcoming_accountability))
     = [fetch_slot_rows, insert_slot_rows, insert_member_rows, slot_refresh, slot_open,
        update_slot_row, update_status, alion_addCoins (- 10)]"
    by code_simp
  have c: "trace (snd (cancel_branch demo_calls 7 1000000 demo_joined_rows [0] booked_accountability))
     = [acquire_room_lock, delete_member_rows, pop_slot_member, set_permissions, update_status,
        release_room_lock, alion_addCoins 10]"
    by code_simp
  show ?thesis unfolding b c by (simp add: critical_def)
qed

end
